theory Spec2Isabelle
  imports Complex_Main
begin

section \<open>Python values used by the script\<close>

text \<open>
  The program is the single Streamlit script \<^verbatim>\<open>YT_Performance_Model.py\<close>. Streamlit
  executes the whole script top to bottom on every interaction, so one execution of the
  script is one function from the environment (the artifact files on disk, the state of
  the widgets) to what was shown and how the execution ended.

  A Python number is modelled as the \<open>real\<close> it denotes: the script only copies,
  converts and compares numbers. A Python \<^verbatim>\<open>dict\<close> is an association list in insertion
  order whose keys are pairwise distinct.
\<close>

type_synonym 'v dict = "(string \<times> 'v) list"

datatype py_exception =
    FileNotFoundError string
  | KeyError string
  | Exception string

text \<open>
  \<^verbatim>\<open>float(x)\<close>. A number that is not an integer can only be a float already, and
  \<^verbatim>\<open>float\<close> gives it back. An integer up to \<open>2 ^ 53\<close> in size is exact as a float. A
  larger one is rounded to 53 significant bits, a tie going to the even neighbour, and
  \<^verbatim>\<open>OverflowError\<close> is raised when the result does not fit a float. \<open>bit_length\<close> is
  \<^verbatim>\<open>int.bit_length\<close>.
\<close>

fun bit_length :: "nat \<Rightarrow> nat" where
  "bit_length n = (if n = 0 then 0 else Suc (bit_length (n div 2)))"

declare bit_length.simps [simp del]

definition float_of_int :: "int \<Rightarrow> py_exception + real" where
  "float_of_int n =
     (if \<bar>n\<bar> \<le> 2 ^ 53 then Inr (of_int n)
      else
        (let a = nat \<bar>n\<bar>;
             sh = bit_length a - 53;
             q = a div 2 ^ sh;
             r = a mod 2 ^ sh;
             q' = (if 2 ^ sh < 2 * r \<or> (2 * r = 2 ^ sh \<and> odd q) then q + 1 else q)
         in if (2 :: nat) ^ 1024 \<le> q' * 2 ^ sh
            then Inl (Exception ''OverflowError: int too large to convert to float'')
            else Inr (if n < 0 then - real (q' * 2 ^ sh) else real (q' * 2 ^ sh))))"

definition py_float :: "real \<Rightarrow> py_exception + real" where
  "py_float x = (if x = of_int \<lfloor>x\<rfloor> then float_of_int \<lfloor>x\<rfloor> else Inr x)"

text \<open>\<^verbatim>\<open>k in d\<close>\<close>

definition dict_contains :: "'v dict \<Rightarrow> string \<Rightarrow> bool" where
  "dict_contains d k = (map_of d k \<noteq> None)"

text \<open>\<^verbatim>\<open>d[k] = v\<close>: an existing key keeps its position, a new key goes last.\<close>

fun dict_setitem :: "'v dict \<Rightarrow> string \<Rightarrow> 'v \<Rightarrow> 'v dict" where
  "dict_setitem [] k v = [(k, v)]"
| "dict_setitem ((k', v') # d) k v =
     (if k' = k then (k, v) # d else (k', v') # dict_setitem d k v)"

text \<open>\<^verbatim>\<open>d[k]\<close>: raises \<^verbatim>\<open>KeyError\<close> on a missing key.\<close>

definition dict_getitem :: "'v dict \<Rightarrow> string \<Rightarrow> py_exception + 'v" where
  "dict_getitem d k = (case map_of d k of None \<Rightarrow> Inl (KeyError k) | Some v \<Rightarrow> Inr v)"

text \<open>\<^verbatim>\<open>d.get(k, default)\<close>\<close>

definition dict_get :: "'v dict \<Rightarrow> string \<Rightarrow> 'v \<Rightarrow> 'v" where
  "dict_get d k dflt = (case map_of d k of None \<Rightarrow> dflt | Some v \<Rightarrow> v)"

text \<open>
  A one-row data frame: the column labels and the cells of the row, \<open>None\<close> for a
  missing cell (NaN).  \<^verbatim>\<open>pd.DataFrame([d], columns=cols)\<close> takes the columns from
  \<open>cols\<close>, in that order, and the cell of each column from \<open>d\<close>.
\<close>

record dataframe =
  columns :: "string list"
  cells :: "real option list"

definition DataFrame :: "real dict \<Rightarrow> string list \<Rightarrow> dataframe" where
  "DataFrame d cols = \<lparr>columns = cols, cells = map (map_of d) cols\<rparr>"

text \<open>
  The trained model is a black box. \<open>m df\<close> is the outcome of
  \<^verbatim>\<open>model.predict(df)[0]\<close>: the number; or an exception that is an instance of
  \<^verbatim>\<open>Exception\<close>, with its text \<^verbatim>\<open>str(e)\<close>; or an exception that is not (a
  \<^verbatim>\<open>KeyboardInterrupt\<close>, a \<^verbatim>\<open>SystemExit\<close>: instances of \<^verbatim>\<open>BaseException\<close> only), with
  its name.
\<close>

datatype prediction = Predicted real | Raised string | RaisedBase string

type_synonym model = "dataframe \<Rightarrow> prediction"

section \<open>The artifact files\<close>

datatype 'a disk_file = Absent | Unreadable string | Present 'a

record artifact_files =
  model_file :: "model disk_file"
  features_file :: "string list disk_file"
  means_file :: "real dict disk_file"

text \<open>
  \<^verbatim>\<open>joblib.load(path)\<close>: \<^verbatim>\<open>FileNotFoundError\<close> for a file that is not there, some
  other exception (a permission error, a failed unpickling) for one that cannot be read.
\<close>

fun joblib_load :: "string \<Rightarrow> 'a disk_file \<Rightarrow> py_exception + 'a" where
  "joblib_load path Absent = Inl (FileNotFoundError path)"
| "joblib_load path (Unreadable t) = Inl (Exception t)"
| "joblib_load path (Present x) = Inr x"

text \<open>The three loads of the \<^verbatim>\<open>try\<close> block, in order; the first failure ends the block.\<close>

definition load_artifacts :: "artifact_files \<Rightarrow> py_exception + (model \<times> string list \<times> real dict)" where
  "load_artifacts fs =
     (case joblib_load ''youtube_revenue_model.joblib'' (model_file fs) of
        Inl e \<Rightarrow> Inl e
      | Inr m \<Rightarrow>
         (case joblib_load ''model_features.joblib'' (features_file fs) of
            Inl e \<Rightarrow> Inl e
          | Inr F \<Rightarrow>
             (case joblib_load ''feature_means.joblib'' (means_file fs) of
                Inl e \<Rightarrow> Inl e
              | Inr M \<Rightarrow> Inr (m, F, M))))"

definition missing_files_message :: string where
  "missing_files_message =
     ''Error: Model files not found. Please ensure 'youtube_revenue_model.joblib', 'model_features.joblib', and 'feature_means.joblib' are in the same directory as this app.''"

section \<open>Streamlit\<close>

text \<open>
  The arguments of one \<^verbatim>\<open>st.number_input\<close> call (the keyword \<^verbatim>\<open>value\<close> is the field
  \<open>value'\<close>), and the elements a run puts on the page.
\<close>

record number_input_args =
  label :: string
  min_value :: real
  max_value :: "real option"
  value' :: real
  step :: real
  format :: string

datatype element =
    Success string
  | Error string
  | Title string
  | Markdown string
  | Write string
  | Info string
  | Columns nat
  | NumberInput number_input_args
  | Button string
  | PredictionSuccess real
  | Balloons

text \<open>
  Streamlit itself is a parameter of the model. \<open>number_input st a\<close> is what the call
  with arguments \<open>a\<close> gives in this run: the current value of the widget (Streamlit
  identifies a widget by its arguments), or an exception raised by the library.
  \<open>button st l\<close> tells whether the button labelled \<open>l\<close> was pressed.
\<close>

record streamlit =
  number_input :: "number_input_args \<Rightarrow> py_exception + real"
  button :: "string \<Rightarrow> bool"

text \<open>
  What ends a run early: an exception nobody catches (an instance of \<^verbatim>\<open>Exception\<close>, or
  one that is a \<^verbatim>\<open>BaseException\<close> only), or \<^verbatim>\<open>st.stop()\<close>.
\<close>

datatype signal = Uncaught py_exception | StopException | UncaughtBase string

section \<open>The script\<close>

text \<open>
  The global variables of the script once the artifacts are loaded, the page so far, and
  the signal that ended the run, if any. \<open>input_df_dict\<close> and \<open>input_df\<close> are unbound
  until lines 139 and 147 assign them; until then the fields hold an empty placeholder
  that nothing reads.
\<close>

record state =
  model :: model
  model_features :: "string list"
  feature_means :: "real dict"
  user_inputs :: "real dict"
  input_df_dict :: "real dict"
  input_df :: dataframe
  screen :: "element list"
  raised :: "signal option"

definition after_load :: "model \<Rightarrow> string list \<Rightarrow> real dict \<Rightarrow> state" where
  "after_load m F M =
     \<lparr>model = m, model_features = F, feature_means = M, user_inputs = [],
      input_df_dict = [], input_df = \<lparr>columns = [], cells = []\<rparr>,
      screen = [Success ''Model and features loaded successfully!''], raised = None\<rparr>"

text \<open>Statements run in order until one of them raises.\<close>

fun exec :: "(state \<Rightarrow> state) list \<Rightarrow> state \<Rightarrow> state" where
  "exec [] s = s"
| "exec (c # cs) s = (if raised s = None then exec cs (c s) else s)"

definition emit :: "element \<Rightarrow> state \<Rightarrow> state" where
  "emit e s = s\<lparr>screen := screen s @ [e]\<rparr>"

definition input_features_display_names :: "string dict" where
  "input_features_display_names =
     [(''Views'', ''Total Views''),
      (''Watch Time (hours)'', ''Total Watch Time (hours)''),
      (''Subscribers'', ''Total Subscribers''),
      (''Video Duration'', ''Average Video Duration (seconds)''),
      (''Likes'', ''Total Likes''),
      (''New Comments'', ''Total New Comments''),
      (''Shares'', ''Total Shares''),
      (''Impressions'', ''Total Impressions''),
      (''Video Thumbnail CTR (%)'', ''Video Thumbnail Click-Through Rate (%)''),
      (''Average View Percentage (%)'', ''Average View Percentage (%)''),
      (''Average View Duration'', ''Average View Duration (seconds)'')]"

text \<open>
  One statement of the form,
  \<^verbatim>\<open>user_inputs[name] = st.number_input(input_features_display_names[name], min_value=0.0,
  [max_value=...,] value=float(feature_means.get(name, 0)), step=..., format="%.2f")\<close>.
  The arguments are evaluated in this order, and an exception of any of them, or of the
  call, is caught by nothing.
\<close>

definition input_field :: "streamlit \<Rightarrow> string \<Rightarrow> real option \<Rightarrow> real \<Rightarrow> state \<Rightarrow> state" where
  "input_field st name maxv stp s =
     (case dict_getitem input_features_display_names name of
        Inl e \<Rightarrow> s\<lparr>raised := Some (Uncaught e)\<rparr>
      | Inr l \<Rightarrow>
         (case py_float (dict_get (feature_means s) name 0) of
            Inl e \<Rightarrow> s\<lparr>raised := Some (Uncaught e)\<rparr>
          | Inr d \<Rightarrow>
             (let a = \<lparr>label = l, min_value = 0, max_value = maxv, value' = d,
                       step = stp, format = ''%.2f''\<rparr>
              in case number_input st a of
                   Inl e \<Rightarrow> s\<lparr>raised := Some (Uncaught e)\<rparr>
                 | Inr v \<Rightarrow> s\<lparr>user_inputs := dict_setitem (user_inputs s) name v,
                               screen := screen s @ [NumberInput a]\<rparr>)))"

text \<open>
  Line 139, \<^verbatim>\<open>{feature: feature_means[feature] for feature in model_features}\<close>: the
  comprehension fills a new dict in the order of the list and stops at the first lookup
  that raises.
\<close>

fun mean_init :: "real dict \<Rightarrow> string list \<Rightarrow> real dict \<Rightarrow> py_exception + real dict" where
  "mean_init M [] d = Inr d"
| "mean_init M (feature # rest) d =
     (case dict_getitem M feature of
        Inl e \<Rightarrow> Inl e
      | Inr v \<Rightarrow> mean_init M rest (dict_setitem d feature v))"

text \<open>
  Lines 142 to 144, the loop over \<^verbatim>\<open>user_inputs.items()\<close> that overwrites the entries of
  \<open>input_df_dict\<close> whose key it already has.
\<close>

fun overwrite_with :: "(string \<times> real) list \<Rightarrow> real dict \<Rightarrow> real dict" where
  "overwrite_with [] d = d"
| "overwrite_with ((feature, v) # items) d =
     overwrite_with items (if dict_contains d feature then dict_setitem d feature v else d)"

definition assign_input_df_dict :: "state \<Rightarrow> state" where
  "assign_input_df_dict s =
     (case mean_init (feature_means s) (model_features s) [] of
        Inl e \<Rightarrow> s\<lparr>raised := Some (Uncaught e)\<rparr>
      | Inr d \<Rightarrow> s\<lparr>input_df_dict := d\<rparr>)"

definition update_input_df_dict :: "state \<Rightarrow> state" where
  "update_input_df_dict s =
     s\<lparr>input_df_dict := overwrite_with (user_inputs s) (input_df_dict s)\<rparr>"

definition assign_input_df :: "state \<Rightarrow> state" where
  "assign_input_df s = s\<lparr>input_df := DataFrame (input_df_dict s) (model_features s)\<rparr>"

text \<open>
  Lines 151 to 157: the button, and on a press the prediction inside its
  \<^verbatim>\<open>try ... except Exception as e\<close>. The handler catches the instances of
  \<^verbatim>\<open>Exception\<close>; any other exception leaves the \<^verbatim>\<open>try\<close> and the script. The success
  message shows the prediction with two decimals; the element keeps the number.
\<close>

definition predict_button :: "streamlit \<Rightarrow> state \<Rightarrow> state" where
  "predict_button st s =
     (let s1 = emit (Button ''Predict Estimated Revenue'') s
      in if button st ''Predict Estimated Revenue''
         then (case model s1 (input_df s1) of
                 Predicted prediction \<Rightarrow>
                   emit Balloons (emit (PredictionSuccess prediction) s1)
               | Raised e \<Rightarrow>
                   emit (Error (''An error occurred during prediction: '' @ e)) s1
               | RaisedBase b \<Rightarrow> s1\<lparr>raised := Some (UncaughtBase b)\<rparr>)
         else s1)"

text \<open>
  The script from line 25 on: the header (lines 25 to 52), the form, the construction of
  the input (lines 139 to 147), and the button with the closing notes (lines 150 to 169).
  The page configuration of lines 7 to 12 puts nothing on the page and is left out. The
  texts of the title and of the notes are abbreviated (their emoji and line breaks carry
  nothing), and the two columns are layout only.
\<close>

definition header :: "(state \<Rightarrow> state) list" where
  "header =
     [emit (Title ''YouTube Channel Revenue Predictor''),
      emit (Markdown ''Welcome to the YouTube Channel Revenue Predictor!''),
      emit (Write ''---''),
      (\<lambda>s. s\<lparr>user_inputs := []\<rparr>),
      emit (Columns 2)]"

text \<open>Lines 55 to 136, the eleven fields of the form.\<close>

definition form :: "streamlit \<Rightarrow> (state \<Rightarrow> state) list" where
  "form st =
     [input_field st ''Views'' None 1000,
      input_field st ''Watch Time (hours)'' None 100,
      input_field st ''Subscribers'' None 10,
      input_field st ''Video Duration'' None 10,
      input_field st ''Likes'' None 10,
      input_field st ''New Comments'' None 1,
      input_field st ''Shares'' None 1,
      input_field st ''Impressions'' None 1000,
      input_field st ''Video Thumbnail CTR (%)'' (Some 100) (1 / 10),
      input_field st ''Average View Percentage (%)'' (Some 100) (1 / 10),
      input_field st ''Average View Duration'' None 10]"

definition prepare_input :: "(state \<Rightarrow> state) list" where
  "prepare_input = [assign_input_df_dict, update_input_df_dict, assign_input_df]"

definition footer :: "streamlit \<Rightarrow> (state \<Rightarrow> state) list" where
  "footer st =
     [emit (Write ''---''),
      predict_button st,
      emit (Write ''---''),
      emit (Markdown ''### How to Use This App''),
      emit (Info ''Run Part 1 code, save this code, run streamlit''),
      emit (Markdown ''Developed using Python & Streamlit'')]"

definition script_body :: "streamlit \<Rightarrow> (state \<Rightarrow> state) list" where
  "script_body st = header @ form st @ prepare_input @ footer st"

text \<open>
  One run of the script. Lines 15 to 22: only \<^verbatim>\<open>FileNotFoundError\<close> is caught, and its
  handler shows the message and stops the run; any other exception of a load leaves the
  script uncaught.
\<close>

datatype run = Halted "element list" signal | Ran state

definition run_script :: "artifact_files \<Rightarrow> streamlit \<Rightarrow> run" where
  "run_script fs st =
     (case load_artifacts fs of
        Inl (FileNotFoundError p) \<Rightarrow> Halted [Error missing_files_message] StopException
      | Inl e \<Rightarrow> Halted [] (Uncaught e)
      | Inr (m, F, M) \<Rightarrow> Ran (exec (script_body st) (after_load m F M)))"

fun shown :: "run \<Rightarrow> element list" where
  "shown (Halted es sig) = es"
| "shown (Ran s) = screen s"

fun ending :: "run \<Rightarrow> signal option" where
  "ending (Halted es sig) = Some sig"
| "ending (Ran s) = raised s"

text \<open>
  A session: every interaction (an edit of a field, a press of the button) runs the
  script again, on the same files, with the widget state of that moment.
\<close>

definition session :: "artifact_files \<Rightarrow> streamlit list \<Rightarrow> run list" where
  "session fs sts = map (run_script fs) sts"

text \<open>Lines 139 to 147 as one function of the means, the feature list and the user inputs.\<close>

definition feature_vector :: "real dict \<Rightarrow> string list \<Rightarrow> real dict \<Rightarrow> py_exception + dataframe" where
  "feature_vector M F U =
     (case mean_init M F [] of
        Inl e \<Rightarrow> Inl e
      | Inr d \<Rightarrow> Inr (DataFrame (overwrite_with U d) F))"

section \<open>Auxiliary definitions for the statements\<close>

text \<open>
  The number inputs on a page, and whether an element is an error message.
\<close>

fun number_inputs :: "element list \<Rightarrow> number_input_args list" where
  "number_inputs [] = []"
| "number_inputs (NumberInput a # es) = a # number_inputs es"
| "number_inputs (e # es) = number_inputs es"

fun is_error :: "element \<Rightarrow> bool" where
  "is_error (Error t) = True"
| "is_error e = False"

text \<open>
  The eleven fields of the form as a table (name, maximum, step), the statement, the
  converted default and the arguments of one row (the default counts where the
  conversion succeeds); \<open>form_as_map\<close> below shows that the form is this table.
\<close>

definition form_fields :: "(string \<times> real option \<times> real) list" where
  "form_fields =
     [(''Views'', None, 1000),
      (''Watch Time (hours)'', None, 100),
      (''Subscribers'', None, 10),
      (''Video Duration'', None, 10),
      (''Likes'', None, 10),
      (''New Comments'', None, 1),
      (''Shares'', None, 1),
      (''Impressions'', None, 1000),
      (''Video Thumbnail CTR (%)'', Some 100, 1 / 10),
      (''Average View Percentage (%)'', Some 100, 1 / 10),
      (''Average View Duration'', None, 10)]"

definition field_step :: "streamlit \<Rightarrow> string \<times> real option \<times> real \<Rightarrow> state \<Rightarrow> state" where
  "field_step st fld = (case fld of (name, maxv, stp) \<Rightarrow> input_field st name maxv stp)"

definition field_default :: "real dict \<Rightarrow> string \<times> real option \<times> real \<Rightarrow> py_exception + real" where
  "field_default M fld = py_float (dict_get M (fst fld) 0)"

definition field_args :: "real dict \<Rightarrow> string \<times> real option \<times> real \<Rightarrow> number_input_args" where
  "field_args M fld =
     (case fld of (name, maxv, stp) \<Rightarrow>
        \<lparr>label = dict_get input_features_display_names name [], min_value = 0,
         max_value = maxv,
         value' = (case field_default M fld of Inl e \<Rightarrow> 0 | Inr d \<Rightarrow> d),
         step = stp, format = ''%.2f''\<rparr>)"

text \<open>
  The state of the script after the form (line 136) and after the construction of the
  input (line 147). \<open>raised (form_rendered st m F M) = None\<close> says that every
  \<^verbatim>\<open>st.number_input\<close> call of the form returned; \<open>raised (input_prepared st m F M) = None\<close>
  says that the run reaches the button.
\<close>

definition form_rendered :: "streamlit \<Rightarrow> model \<Rightarrow> string list \<Rightarrow> real dict \<Rightarrow> state" where
  "form_rendered st m F M = exec (header @ form st) (after_load m F M)"

definition input_prepared :: "streamlit \<Rightarrow> model \<Rightarrow> string list \<Rightarrow> real dict \<Rightarrow> state" where
  "input_prepared st m F M = exec prepare_input (form_rendered st m F M)"

text \<open>
  The two percentage features; what it means for Streamlit to keep the value of a widget
  within the bounds its call gave, and to render every number input whose default lies
  within those bounds; means whose converted defaults (\<^verbatim>\<open>float(feature_means.get(name,
  0))\<close>) exist and lie within the bounds of the form; user inputs within the bounds of
  the form; and a page whose number inputs are configured with those bounds.
\<close>

definition percentage_features :: "string list" where
  "percentage_features = [''Video Thumbnail CTR (%)'', ''Average View Percentage (%)'']"

definition honours_bounds :: "streamlit \<Rightarrow> bool" where
  "honours_bounds st =
     (\<forall>a v. number_input st a = Inr v \<longrightarrow>
        min_value a \<le> v \<and> (\<forall>mx. max_value a = Some mx \<longrightarrow> v \<le> mx))"

definition renders_valid_defaults :: "streamlit \<Rightarrow> bool" where
  "renders_valid_defaults st =
     (\<forall>a. min_value a \<le> value' a \<and> (\<forall>mx. max_value a = Some mx \<longrightarrow> value' a \<le> mx) \<longrightarrow>
        (\<exists>v. number_input st a = Inr v))"

definition defaults_within_bounds :: "real dict \<Rightarrow> bool" where
  "defaults_within_bounds M =
     (\<forall>name \<in> set (map fst input_features_display_names).
        \<exists>d. py_float (dict_get M name 0) = Inr d \<and> 0 \<le> d \<and>
            (name \<in> set percentage_features \<longrightarrow> d \<le> 100))"

definition within_bounds :: "real dict \<Rightarrow> bool" where
  "within_bounds U =
     (\<forall>(k, v) \<in> set U. 0 \<le> v \<and> (k \<in> set percentage_features \<longrightarrow> v \<le> 100))"

definition bounds_configured :: "element list \<Rightarrow> bool" where
  "bounds_configured es =
     (\<forall>a. NumberInput a \<in> set es \<longrightarrow>
        min_value a = 0 \<and>
        (label a \<in> set (map (\<lambda>k. dict_get input_features_display_names k [])
                          percentage_features) \<longrightarrow> max_value a = Some 100))"

section \<open>Example environments\<close>

text \<open>
  The scenario: means of 1000 views and 50 subscribers, every other mean 0, and a model
  that expects views, subscribers and likes.
\<close>

definition scenario_means :: "real dict" where
  "scenario_means =
     [(''Views'', 1000), (''Watch Time (hours)'', 0), (''Subscribers'', 50),
      (''Video Duration'', 0), (''Likes'', 0), (''New Comments'', 0), (''Shares'', 0),
      (''Impressions'', 0), (''Video Thumbnail CTR (%)'', 0),
      (''Average View Percentage (%)'', 0), (''Average View Duration'', 0)]"

definition scenario_features :: "string list" where
  "scenario_features = [''Views'', ''Subscribers'', ''Likes'']"

text \<open>
  A model that also expects a feature the form does not show, with means for all its
  features; means with a negative entry; and a feature list that the means of the
  scenario do not cover.
\<close>

definition example_features :: "string list" where
  "example_features = [''Views'', ''Dislikes'', ''Likes'']"

definition example_means :: "real dict" where
  "example_means =
     [(''Views'', 1000), (''Dislikes'', 7), (''Likes'', 0), (''Video Thumbnail CTR (%)'', 4)]"

definition negative_means :: "real dict" where
  "negative_means = [(''Views'', - 5), (''Subscribers'', 50), (''Likes'', 0)]"

definition uncovered_features :: "string list" where
  "uncovered_features = [''Views'', ''Dislikes'', ''Comments'']"

text \<open>
  A model that always predicts 0, one whose \<^verbatim>\<open>predict\<close> always raises an
  \<^verbatim>\<open>Exception\<close>, and one whose \<^verbatim>\<open>predict\<close> is interrupted.
\<close>

definition constant_model :: model where
  "constant_model df = Predicted 0"

definition raising_model :: model where
  "raising_model df = Raised ''X has 3 features, but the model is expecting 5''"

definition interrupted_model :: model where
  "interrupted_model df = RaisedBase ''KeyboardInterrupt''"

text \<open>
  Artifact files that are all present; files whose model cannot be read; files whose
  means are missing.
\<close>

definition example_files :: "model \<Rightarrow> string list \<Rightarrow> real dict \<Rightarrow> artifact_files" where
  "example_files m F M =
     \<lparr>model_file = Present m, features_file = Present F, means_file = Present M\<rparr>"

definition unreadable_model_files :: artifact_files where
  "unreadable_model_files =
     \<lparr>model_file = Unreadable ''[Errno 13] Permission denied'',
      features_file = Present scenario_features, means_file = Present scenario_means\<rparr>"

definition missing_means_files :: artifact_files where
  "missing_means_files =
     \<lparr>model_file = Present constant_model, features_file = Present scenario_features,
      means_file = Absent\<rparr>"

text \<open>
  Two pages. On the first the user has set the views to 5000, left every other field at
  its default and pressed the button. On the second nothing was touched: every widget
  gives its default, and Streamlit refuses a default outside the bounds of the call.
\<close>

definition views_edited :: streamlit where
  "views_edited =
     \<lparr>number_input = (\<lambda>a. if label a = ''Total Views'' then Inr 5000 else Inr (value' a)),
      button = (\<lambda>l. True)\<rparr>"

definition untouched_widgets :: streamlit where
  "untouched_widgets =
     \<lparr>number_input =
        (\<lambda>a. if value' a < min_value a \<or>
                  (case max_value a of None \<Rightarrow> False | Some mx \<Rightarrow> mx < value' a)
               then Inl (Exception ''StreamlitAPIException'')
               else Inr (value' a)),
      button = (\<lambda>l. False)\<rparr>"

section \<open>Numbers and dictionaries\<close>

lemma py_float_exact:
  assumes "\<bar>x\<bar> \<le> 2 ^ 53 \<or> x \<noteq> of_int \<lfloor>x\<rfloor>"
  shows "py_float x = Inr x"
proof (cases "x = of_int \<lfloor>x\<rfloor>")
  case True
  with assms have "\<bar>x\<bar> \<le> 2 ^ 53" by blast
  then have "\<bar>real_of_int \<lfloor>x\<rfloor>\<bar> \<le> 2 ^ 53" using True by simp
  then have "real_of_int \<bar>\<lfloor>x\<rfloor>\<bar> \<le> real_of_int (2 ^ 53)"
    by simp
  then have "\<bar>\<lfloor>x\<rfloor>\<bar> \<le> 2 ^ 53"
    by (simp only: of_int_le_iff)
  then show ?thesis using True by (simp add: py_float_def float_of_int_def)
next
  case False
  then show ?thesis by (simp add: py_float_def)
qed

lemma py_float_zero: "py_float 0 = Inr 0"
  by (simp add: py_float_exact)

text \<open>The first integer that \<^verbatim>\<open>float\<close> changes: \<open>2 ^ 53 + 1\<close> becomes \<open>2 ^ 53\<close>.\<close>

lemma py_float_rounds: "py_float 9007199254740993 = Inr 9007199254740992"
proof -
  have "bit_length 9007199254740993 = 54"
    by (simp add: bit_length.simps)
  then have "float_of_int 9007199254740993 = Inr 9007199254740992"
    by (simp add: float_of_int_def)
  then show ?thesis
    by (simp add: py_float_def)
qed

lemma map_of_dict_setitem: "map_of (dict_setitem d k v) = (map_of d)(k \<mapsto> v)"
  by (induction d k v rule: dict_setitem.induct) (auto simp: fun_eq_iff)

lemma keys_dict_setitem:
  "map fst (dict_setitem d k v) = (if k \<in> set (map fst d) then map fst d else map fst d @ [k])"
  by (induction d k v rule: dict_setitem.induct) auto

lemma dict_contains_iff: "dict_contains d k \<longleftrightarrow> k \<in> fst ` set d"
  by (simp add: dict_contains_def map_of_eq_None_iff)

lemma mean_init_Inr:
  "mean_init M F d = Inr d' \<Longrightarrow>
     map_of d' k = (if k \<in> set F then map_of M k else map_of d k)"
proof (induction F arbitrary: d)
  case Nil
  then show ?case by simp
next
  case (Cons f rest)
  then show ?case
    by (auto simp: dict_getitem_def map_of_dict_setitem split: option.splits)
qed

lemma mean_init_keys:
  "mean_init M F d = Inr d' \<Longrightarrow> fst ` set d' = fst ` set d \<union> set F"
proof (induction F arbitrary: d)
  case Nil
  then show ?case by simp
next
  case (Cons f rest)
  from Cons.prems obtain v where v: "map_of M f = Some v"
    and r: "mean_init M rest (dict_setitem d f v) = Inr d'"
    by (auto simp: dict_getitem_def split: option.splits)
  have "fst ` set (dict_setitem d f v) = insert f (fst ` set d)"
    using arg_cong [OF keys_dict_setitem [of d f v], of set]
    by (auto split: if_splits)
  with Cons.IH [OF r] show ?case by auto
qed

lemma mean_init_covered:
  "set F \<subseteq> fst ` set M \<Longrightarrow> \<exists>d'. mean_init M F d = Inr d'"
proof (induction F arbitrary: d)
  case Nil
  then show ?case by simp
next
  case (Cons f rest)
  then obtain v where "map_of M f = Some v"
    by (cases "map_of M f") (auto simp: map_of_eq_None_iff)
  with Cons show ?case by (simp add: dict_getitem_def)
qed

lemma overwrite_with_keys: "map fst (overwrite_with U d) = map fst d"
  by (induction U d rule: overwrite_with.induct)
     (auto simp: keys_dict_setitem dict_contains_iff)

lemma overwrite_with_append:
  "overwrite_with (A @ B) d = overwrite_with B (overwrite_with A d)"
  by (induction A d rule: overwrite_with.induct) auto

lemma overwrite_with_map_of:
  "map_of (overwrite_with U d) k =
     (case map_of d k of
        None \<Rightarrow> None
      | Some m \<Rightarrow> (case map_of (rev U) k of Some v \<Rightarrow> Some v | None \<Rightarrow> Some m))"
proof (induction U d rule: overwrite_with.induct)
  case (1 d)
  then show ?case by (simp split: option.splits)
next
  case (2 feature v items d)
  then show ?case
    by (auto simp: map_of_dict_setitem dict_contains_def map_of_append split: option.splits)
qed

lemma map_of_rev_distinct: "distinct (map fst U) \<Longrightarrow> map_of (rev U) = map_of U"
  by (rule map_of_inject_set [THEN iffD2]) (auto simp: rev_map [symmetric])

section \<open>Running the script\<close>

text \<open>
  Once a statement has raised, nothing more runs; so a list of statements can be run in
  parts, and a property that every statement preserves holds at the end.
\<close>

lemma exec_raised: "raised s \<noteq> None \<Longrightarrow> exec cs s = s"
  by (cases cs) auto

lemma exec_first_raises: "raised s = None \<Longrightarrow> raised (c s) \<noteq> None \<Longrightarrow> exec (c # cs) s = c s"
  by (simp add: exec_raised)

lemma exec_append: "exec (cs @ ds) s = exec ds (exec cs s)"
  by (induction cs arbitrary: s) (auto simp: exec_raised)

lemma exec_invariant:
  assumes step: "\<And>c s. c \<in> set cs \<Longrightarrow> I s \<Longrightarrow> I (c s)" and init: "I s"
  shows "I (exec cs s)"
  using assms by (induction cs arbitrary: s) auto

lemma number_inputs_append: "number_inputs (es @ fs) = number_inputs es @ number_inputs fs"
  by (induction es rule: number_inputs.induct) auto

lemma form_as_map: "form st = map (field_step st) form_fields"
  by (simp add: form_def form_fields_def field_step_def)

lemma script_run:
  "exec (script_body st) (after_load m F M) = exec (footer st) (input_prepared st m F M)"
  by (simp add: script_body_def input_prepared_def form_rendered_def exec_append)

lemma field_step_cases:
  assumes "fst fld \<in> fst ` set input_features_display_names"
  shows "field_step st fld s =
     (case field_default (feature_means s) fld of
        Inl e \<Rightarrow> s\<lparr>raised := Some (Uncaught e)\<rparr>
      | Inr d \<Rightarrow>
         (case number_input st (field_args (feature_means s) fld) of
            Inl e \<Rightarrow> s\<lparr>raised := Some (Uncaught e)\<rparr>
          | Inr v \<Rightarrow> s\<lparr>user_inputs := dict_setitem (user_inputs s) (fst fld) v,
                        screen := screen s @
                          [NumberInput (field_args (feature_means s) fld)]\<rparr>))"
proof -
  obtain name maxv stp where fld: "fld = (name, maxv, stp)" by (cases fld)
  with assms obtain l where "map_of input_features_display_names name = Some l"
    by (cases "map_of input_features_display_names name") (auto simp: map_of_eq_None_iff)
  then show ?thesis
    unfolding fld
    by (simp add: field_step_def field_args_def field_default_def input_field_def
          dict_getitem_def dict_get_def Let_def split: sum.splits)
qed

lemma form_fields_names:
  "map fst form_fields = map fst input_features_display_names"
  by (simp add: form_fields_def input_features_display_names_def)

lemma exec_fields:
  assumes "set (map fst fl) \<subseteq> fst ` set input_features_display_names"
      and "raised s = None"
      and "raised (exec (map (field_step st) fl) s) = None"
  shows "screen (exec (map (field_step st) fl) s) =
           screen s @ map (\<lambda>fld. NumberInput (field_args (feature_means s) fld)) fl \<and>
         (\<forall>fld \<in> set fl. field_default (feature_means s) fld
            = Inr (value' (field_args (feature_means s) fld)))"
  using assms
proof (induction fl arbitrary: s)
  case Nil
  then show ?case by simp
next
  case (Cons fld fl)
  let ?a = "field_args (feature_means s) fld"
  have nm: "fst fld \<in> fst ` set input_features_display_names"
    using Cons.prems(1) by simp
  show ?case
  proof (cases "field_default (feature_means s) fld")
    case (Inl e)
    then have "raised (field_step st fld s) \<noteq> None"
      by (simp add: field_step_cases [OF nm])
    with Cons.prems show ?thesis by (simp add: exec_raised)
  next
    case d: (Inr d)
    have dflt: "field_default (feature_means s) fld = Inr (value' ?a)"
      using d by (cases fld) (auto simp: field_args_def)
    show ?thesis
    proof (cases "number_input st ?a")
      case (Inl e)
      then have "raised (field_step st fld s) \<noteq> None"
        by (simp add: field_step_cases [OF nm] d)
      with Cons.prems show ?thesis by (simp add: exec_raised)
    next
      case (Inr v)
      let ?s' = "field_step st fld s"
      have s': "?s' = s\<lparr>user_inputs := dict_setitem (user_inputs s) (fst fld) v,
                        screen := screen s @ [NumberInput ?a]\<rparr>"
        by (simp add: field_step_cases [OF nm] d Inr)
      have "screen (exec (map (field_step st) fl) ?s') =
              screen ?s' @ map (\<lambda>fld. NumberInput (field_args (feature_means ?s') fld)) fl \<and>
            (\<forall>fld \<in> set fl. field_default (feature_means ?s') fld
               = Inr (value' (field_args (feature_means ?s') fld)))"
        using Cons.prems by (intro Cons.IH) (auto simp: s')
      then show ?thesis using Cons.prems(2) dflt by (simp add: s')
    qed
  qed
qed

subsection \<open>What each statement leaves unchanged\<close>

lemma emit_fields:
  "model (emit e s) = model s" "model_features (emit e s) = model_features s"
  "feature_means (emit e s) = feature_means s" "user_inputs (emit e s) = user_inputs s"
  "input_df_dict (emit e s) = input_df_dict s" "input_df (emit e s) = input_df s"
  "raised (emit e s) = raised s" "screen (emit e s) = screen s @ [e]"
  by (simp_all add: emit_def)

lemma input_field_fields:
  "model (input_field st n mx stp s) = model s"
  "model_features (input_field st n mx stp s) = model_features s"
  "feature_means (input_field st n mx stp s) = feature_means s"
  "input_df_dict (input_field st n mx stp s) = input_df_dict s"
  "input_df (input_field st n mx stp s) = input_df s"
  by (simp_all add: input_field_def Let_def split: sum.splits)

lemma predict_button_fields:
  "model (predict_button st s) = model s"
  "model_features (predict_button st s) = model_features s"
  "feature_means (predict_button st s) = feature_means s"
  "user_inputs (predict_button st s) = user_inputs s"
  "input_df_dict (predict_button st s) = input_df_dict s"
  "input_df (predict_button st s) = input_df s"
  by (simp_all add: predict_button_def Let_def emit_fields split: prediction.splits)

lemma predict_button_raised:
  "raised (predict_button st s) =
     (if button st ''Predict Estimated Revenue''
      then (case model s (input_df s) of
              Predicted prediction \<Rightarrow> raised s
            | Raised e \<Rightarrow> raised s
            | RaisedBase b \<Rightarrow> Some (UncaughtBase b))
      else raised s)"
  by (simp add: predict_button_def Let_def emit_fields split: prediction.splits)

lemma prepare_fields:
  "model (assign_input_df_dict s) = model s"
  "model_features (assign_input_df_dict s) = model_features s"
  "feature_means (assign_input_df_dict s) = feature_means s"
  "user_inputs (assign_input_df_dict s) = user_inputs s"
  "screen (assign_input_df_dict s) = screen s"
  "model (update_input_df_dict s) = model s"
  "model_features (update_input_df_dict s) = model_features s"
  "feature_means (update_input_df_dict s) = feature_means s"
  "user_inputs (update_input_df_dict s) = user_inputs s"
  "screen (update_input_df_dict s) = screen s"
  "raised (update_input_df_dict s) = raised s"
  "model (assign_input_df s) = model s"
  "model_features (assign_input_df s) = model_features s"
  "feature_means (assign_input_df s) = feature_means s"
  "user_inputs (assign_input_df s) = user_inputs s"
  "screen (assign_input_df s) = screen s"
  "raised (assign_input_df s) = raised s"
  by (simp_all add: assign_input_df_dict_def update_input_df_dict_def assign_input_df_def
        split: sum.splits)

lemma script_keeps_artifacts:
  assumes "c \<in> set (script_body st)"
  shows "model (c s) = model s \<and> model_features (c s) = model_features s \<and>
         feature_means (c s) = feature_means s"
  using assms
  by (auto simp: script_body_def header_def form_def prepare_input_def footer_def
        emit_fields input_field_fields predict_button_fields prepare_fields)

lemma exec_script_artifacts:
  "model (exec (script_body st) (after_load m F M)) = m \<and>
   model_features (exec (script_body st) (after_load m F M)) = F \<and>
   feature_means (exec (script_body st) (after_load m F M)) = M"
proof (rule exec_invariant
    [where I = "\<lambda>s :: state. model s = m \<and> model_features s = F \<and> feature_means s = M"])
  show "model (after_load m F M) = m \<and> model_features (after_load m F M) = F \<and>
        feature_means (after_load m F M) = M"
    by (simp add: after_load_def)
next
  fix c :: "state \<Rightarrow> state" and s :: state
  assume "c \<in> set (script_body st)"
    and "model s = m \<and> model_features s = F \<and> feature_means s = M"
  then show "model (c s) = m \<and> model_features (c s) = F \<and> feature_means (c s) = M"
    using script_keeps_artifacts [of c st s] by simp
qed

subsection \<open>One field of the form\<close>

lemma set_dict_setitem: "set (dict_setitem d k v) \<subseteq> insert (k, v) (set d)"
  by (induction d k v rule: dict_setitem.induct) auto

lemma input_field_cases:
  obtains (failed) e where "input_field st n mx stp s = s\<lparr>raised := Some (Uncaught e)\<rparr>"
  | (rendered) l d v where "dict_getitem input_features_display_names n = Inr l"
      "py_float (dict_get (feature_means s) n 0) = Inr d"
      "number_input st \<lparr>label = l, min_value = 0, max_value = mx, value' = d, step = stp,
         format = ''%.2f''\<rparr> = Inr v"
      "input_field st n mx stp s =
         s\<lparr>user_inputs := dict_setitem (user_inputs s) n v,
           screen := screen s @ [NumberInput \<lparr>label = l, min_value = 0, max_value = mx,
             value' = d, step = stp, format = ''%.2f''\<rparr>]\<rparr>"
proof (cases "dict_getitem input_features_display_names n")
  case (Inl e)
  then show ?thesis by (intro failed [of e]) (simp add: input_field_def)
next
  case l: (Inr l)
  show ?thesis
  proof (cases "py_float (dict_get (feature_means s) n 0)")
    case (Inl e)
    then show ?thesis by (intro failed [of e]) (simp add: input_field_def l)
  next
    case d: (Inr d)
    let ?a = "\<lparr>label = l, min_value = 0, max_value = mx, value' = d, step = stp,
               format = ''%.2f''\<rparr>"
    show ?thesis
    proof (cases "number_input st ?a")
      case (Inl e)
      then show ?thesis by (intro failed [of e]) (simp add: input_field_def l d)
    next
      case v: (Inr v)
      show ?thesis
        by (rule rendered [OF l d v]) (simp add: input_field_def l d v)
    qed
  qed
qed

lemma input_field_user_inputs:
  "user_inputs (input_field st n mx stp s) = user_inputs s \<or>
   (\<exists>a v. number_input st a = Inr v \<and> min_value a = 0 \<and> max_value a = mx \<and>
      user_inputs (input_field st n mx stp s) = dict_setitem (user_inputs s) n v)"
proof (cases rule: input_field_cases [of st n mx stp s])
  case (failed e)
  then show ?thesis by simp
next
  case (rendered l d v)
  let ?a = "\<lparr>label = l, min_value = 0, max_value = mx, value' = d, step = stp,
             format = ''%.2f''\<rparr>"
  have "user_inputs (input_field st n mx stp s) = dict_setitem (user_inputs s) n v"
    by (simp add: rendered(4))
  moreover have "min_value ?a = 0" "max_value ?a = mx" by simp_all
  ultimately show ?thesis using rendered(3) by blast
qed

lemma input_field_bounds:
  assumes lib: "honours_bounds st"
    and pct: "n \<in> set percentage_features \<Longrightarrow> mx = Some 100"
    and inv: "within_bounds (user_inputs s)"
  shows "within_bounds (user_inputs (input_field st n mx stp s))"
proof -
  from input_field_user_inputs [of st n mx stp s]
  consider "user_inputs (input_field st n mx stp s) = user_inputs s"
    | a v where "number_input st a = Inr v" "min_value a = 0" "max_value a = mx"
        "user_inputs (input_field st n mx stp s) = dict_setitem (user_inputs s) n v"
    by blast
  then show ?thesis
  proof cases
    case 1
    with inv show ?thesis by simp
  next
    case 2
    from lib 2(1) have "min_value a \<le> v \<and> (\<forall>m. max_value a = Some m \<longrightarrow> v \<le> m)"
      unfolding honours_bounds_def by blast
    with 2(2,3) have v: "0 \<le> v" "\<And>m. mx = Some m \<Longrightarrow> v \<le> m"
      by simp_all
    have "0 \<le> v \<and> (n \<in> set percentage_features \<longrightarrow> v \<le> 100)"
      using v pct by auto
    with inv set_dict_setitem [of "user_inputs s" n v] show ?thesis
      unfolding 2(4) within_bounds_def by blast
  qed
qed

lemma input_field_keys:
  "fst ` set (user_inputs (input_field st n mx stp s)) \<subseteq> insert n (fst ` set (user_inputs s))"
  using input_field_user_inputs [of st n mx stp s] set_dict_setitem [of "user_inputs s" n]
  by fastforce

lemma input_field_screen:
  "screen (input_field st n mx stp s) = screen s \<or>
   (\<exists>l d. dict_getitem input_features_display_names n = Inr l \<and>
      screen (input_field st n mx stp s)
        = screen s @ [NumberInput \<lparr>label = l, min_value = 0, max_value = mx,
                        value' = d, step = stp, format = ''%.2f''\<rparr>])"
proof (cases rule: input_field_cases [of st n mx stp s])
  case (failed e)
  then show ?thesis by simp
next
  case (rendered l d v)
  then show ?thesis by simp
qed

lemma input_field_configured:
  assumes pct: "\<And>l. dict_getitem input_features_display_names n = Inr l \<Longrightarrow>
                  l \<in> set (map (\<lambda>k. dict_get input_features_display_names k [])
                          percentage_features) \<Longrightarrow> mx = Some 100"
    and inv: "bounds_configured (screen s)"
  shows "bounds_configured (screen (input_field st n mx stp s))"
  using input_field_screen [of st n mx stp s] inv pct
  by (auto simp: bounds_configured_def)

subsection \<open>The phases of a run\<close>

lemma number_inputs_map:
  "number_inputs (map (\<lambda>x. NumberInput (f x)) xs) = map f xs"
  by (induction xs) auto

lemma header_exec:
  "exec header (after_load m F M) =
     (after_load m F M)
       \<lparr>screen := [Success ''Model and features loaded successfully!'',
                   Title ''YouTube Channel Revenue Predictor'',
                   Markdown ''Welcome to the YouTube Channel Revenue Predictor!'',
                   Write ''---'', Columns 2]\<rparr>"
  by (simp add: header_def emit_def after_load_def)

lemma form_rendered_exec:
  "form_rendered st m F M = exec (form st) (exec header (after_load m F M))"
  by (simp add: form_rendered_def exec_append)

lemma form_rendered_artifacts:
  "model (form_rendered st m F M) = m \<and> model_features (form_rendered st m F M) = F \<and>
   feature_means (form_rendered st m F M) = M"
  unfolding form_rendered_def
proof (rule exec_invariant
    [where I = "\<lambda>s :: state. model s = m \<and> model_features s = F \<and> feature_means s = M"])
  show "model (after_load m F M) = m \<and> model_features (after_load m F M) = F \<and>
        feature_means (after_load m F M) = M"
    by (simp add: after_load_def)
next
  fix c :: "state \<Rightarrow> state" and s :: state
  assume "c \<in> set (header @ form st)"
    and "model s = m \<and> model_features s = F \<and> feature_means s = M"
  then show "model (c s) = m \<and> model_features (c s) = F \<and> feature_means (c s) = M"
    using script_keeps_artifacts [of c st s] by (auto simp: script_body_def)
qed

lemma form_rendered_page:
  assumes "raised (form_rendered st m F M) = None"
  shows "screen (form_rendered st m F M) =
           [Success ''Model and features loaded successfully!'',
            Title ''YouTube Channel Revenue Predictor'',
            Markdown ''Welcome to the YouTube Channel Revenue Predictor!'',
            Write ''---'', Columns 2] @
           map (\<lambda>fld. NumberInput (field_args M fld)) form_fields \<and>
         (\<forall>fld \<in> set form_fields. field_default M fld = Inr (value' (field_args M fld)))"
proof -
  let ?h = "exec header (after_load m F M)"
  have h: "raised ?h = None" "feature_means ?h = M"
    "screen ?h = [Success ''Model and features loaded successfully!'',
            Title ''YouTube Channel Revenue Predictor'',
            Markdown ''Welcome to the YouTube Channel Revenue Predictor!'',
            Write ''---'', Columns 2]"
    unfolding header_exec by (simp_all add: after_load_def)
  have "screen (exec (map (field_step st) form_fields) ?h) =
          screen ?h @ map (\<lambda>fld. NumberInput (field_args (feature_means ?h) fld)) form_fields \<and>
        (\<forall>fld \<in> set form_fields. field_default (feature_means ?h) fld
            = Inr (value' (field_args (feature_means ?h) fld)))"
    using assms h(1)
    by (intro exec_fields) (simp_all add: form_fields_names form_rendered_exec form_as_map)
  then show ?thesis
    by (simp add: form_rendered_exec form_as_map h del: exec.simps)
qed

lemma form_rendered_screen:
  assumes "raised (form_rendered st m F M) = None"
  shows "number_inputs (screen (form_rendered st m F M)) = map (field_args M) form_fields \<and>
         (\<forall>fld \<in> set form_fields. field_default M fld = Inr (value' (field_args M fld)))"
  using form_rendered_page [OF assms]
  by (simp add: number_inputs_append number_inputs_map)

lemma form_rendered_no_error:
  assumes "raised (form_rendered st m F M) = None"
  shows "\<not> list_ex is_error (screen (form_rendered st m F M))"
  using form_rendered_page [OF assms] by (simp add: list_ex_iff image_iff)

lemma form_rendered_inputs:
  assumes "raised (form_rendered st m F M) = None"
  shows "number_inputs (screen (form_rendered st m F M)) = map (field_args M) form_fields"
  using form_rendered_screen [OF assms] by blast

lemma prepare_exec:
  assumes "raised s = None"
  shows "exec prepare_input s =
     (case mean_init (feature_means s) (model_features s) [] of
        Inl e \<Rightarrow> s\<lparr>raised := Some (Uncaught e)\<rparr>
      | Inr d0 \<Rightarrow> s\<lparr>input_df_dict := overwrite_with (user_inputs s) d0,
                     input_df := DataFrame (overwrite_with (user_inputs s) d0)
                                   (model_features s)\<rparr>)"
  using assms
  by (simp add: prepare_input_def assign_input_df_dict_def update_input_df_dict_def
        assign_input_df_def split: sum.splits)

lemma footer_fields:
  "model (exec (footer st) s) = model s"
  "model_features (exec (footer st) s) = model_features s"
  "feature_means (exec (footer st) s) = feature_means s"
  "user_inputs (exec (footer st) s) = user_inputs s"
  "input_df_dict (exec (footer st) s) = input_df_dict s"
  "input_df (exec (footer st) s) = input_df s"
  by (simp_all add: footer_def emit_fields predict_button_fields)

lemma footer_raised:
  assumes "raised s = None"
  shows "raised (exec (footer st) s) =
     (if button st ''Predict Estimated Revenue''
      then (case model s (input_df s) of
              Predicted prediction \<Rightarrow> None
            | Raised e \<Rightarrow> None
            | RaisedBase b \<Rightarrow> Some (UncaughtBase b))
      else None)"
  using assms
  by (simp add: footer_def emit_fields predict_button_fields predict_button_raised
        split: prediction.splits)

lemma footer_raised_None:
  assumes "raised (exec (footer st) s) = None"
  shows "raised s = None"
proof (rule ccontr)
  assume "raised s \<noteq> None"
  then have "exec (footer st) s = s" by (rule exec_raised)
  with assms \<open>raised s \<noteq> None\<close> show False by simp
qed

lemma predict_button_screen:
  "screen (predict_button st s) =
     screen s @ Button ''Predict Estimated Revenue'' #
       (if button st ''Predict Estimated Revenue''
        then (case model s (input_df s) of
                Predicted prediction \<Rightarrow> [PredictionSuccess prediction, Balloons]
              | Raised e \<Rightarrow> [Error (''An error occurred during prediction: '' @ e)]
              | RaisedBase b \<Rightarrow> [])
        else [])"
  by (simp add: predict_button_def Let_def emit_def split: prediction.splits)

lemma footer_screen:
  assumes "raised s = None"
  shows "screen (exec (footer st) s) =
     screen s @ [Write ''---'', Button ''Predict Estimated Revenue''] @
       (if button st ''Predict Estimated Revenue''
        then (case model s (input_df s) of
                Predicted prediction \<Rightarrow>
                  [PredictionSuccess prediction, Balloons,
                   Write ''---'', Markdown ''### How to Use This App'',
                   Info ''Run Part 1 code, save this code, run streamlit'',
                   Markdown ''Developed using Python & Streamlit'']
              | Raised e \<Rightarrow>
                  [Error (''An error occurred during prediction: '' @ e),
                   Write ''---'', Markdown ''### How to Use This App'',
                   Info ''Run Part 1 code, save this code, run streamlit'',
                   Markdown ''Developed using Python & Streamlit'']
              | RaisedBase b \<Rightarrow> [])
        else [Write ''---'', Markdown ''### How to Use This App'',
              Info ''Run Part 1 code, save this code, run streamlit'',
              Markdown ''Developed using Python & Streamlit''])"
  using assms
  by (simp add: footer_def emit_fields predict_button_fields predict_button_raised
        predict_button_screen split: prediction.splits)

lemma footer_number_inputs:
  "number_inputs (screen (exec (footer st) s)) = number_inputs (screen s)"
proof (cases "raised s = None")
  case True
  then show ?thesis
    by (simp add: footer_screen number_inputs_append split: prediction.splits)
next
  case False
  then show ?thesis by (simp add: exec_raised)
qed

lemma input_prepared_cases:
  "input_prepared st m F M =
     (if raised (form_rendered st m F M) \<noteq> None then form_rendered st m F M
      else (case mean_init M F [] of
              Inl e \<Rightarrow> (form_rendered st m F M)\<lparr>raised := Some (Uncaught e)\<rparr>
            | Inr d0 \<Rightarrow>
                (form_rendered st m F M)
                  \<lparr>input_df_dict := overwrite_with (user_inputs (form_rendered st m F M)) d0,
                   input_df := DataFrame
                     (overwrite_with (user_inputs (form_rendered st m F M)) d0) F\<rparr>))"
  using form_rendered_artifacts [of st m F M]
  by (simp add: input_prepared_def exec_raised prepare_exec split: sum.splits)

lemma form_keeps_key_bound:
  assumes "c \<in> set (header @ form st)"
    and "fst ` set (user_inputs s) \<subseteq> fst ` set input_features_display_names"
  shows "fst ` set (user_inputs (c s)) \<subseteq> fst ` set input_features_display_names"
proof -
  have field: "fst ` set (user_inputs (input_field st n mx stp s))
                 \<subseteq> fst ` set input_features_display_names"
    if "n \<in> fst ` set input_features_display_names" for n mx stp
    using input_field_keys [of st n mx stp s] assms(2) that by blast
  from assms(1) consider "c \<in> set header" | "c \<in> set (form st)" by auto
  then show ?thesis
  proof cases
    case 1
    then have "user_inputs (c s) = user_inputs s \<or> user_inputs (c s) = []"
      by (auto simp: header_def emit_fields)
    with assms(2) show ?thesis by (elim disjE) simp_all
  next
    case 2
    then obtain fld where fld: "fld \<in> set form_fields" and c: "c = field_step st fld"
      by (auto simp: form_as_map)
    obtain n mx stp where f: "fld = (n, mx, stp)" by (cases fld)
    have "n \<in> set (map fst form_fields)"
      using fld f by force
    then have n: "n \<in> fst ` set input_features_display_names"
      by (simp add: form_fields_names)
    show ?thesis unfolding c f field_step_def prod.case by (rule field [OF n])
  qed
qed

lemma form_rendered_keys:
  "fst ` set (user_inputs (form_rendered st m F M)) \<subseteq> fst ` set input_features_display_names"
  unfolding form_rendered_def
proof (rule exec_invariant
    [where I = "\<lambda>s :: state. fst ` set (user_inputs s) \<subseteq> fst ` set input_features_display_names"])
  show "fst ` set (user_inputs (after_load m F M)) \<subseteq> fst ` set input_features_display_names"
    by (simp add: after_load_def)
next
  fix c :: "state \<Rightarrow> state" and s :: state
  assume "c \<in> set (header @ form st)"
    and "fst ` set (user_inputs s) \<subseteq> fst ` set input_features_display_names"
  then show "fst ` set (user_inputs (c s)) \<subseteq> fst ` set input_features_display_names"
    by (rule form_keeps_key_bound)
qed

lemma prepared_run:
  assumes "raised (input_prepared st m F M) = None"
  shows "\<exists>d0. mean_init M F [] = Inr d0 \<and>
           raised (form_rendered st m F M) = None \<and>
           user_inputs (exec (script_body st) (after_load m F M))
             = user_inputs (form_rendered st m F M) \<and>
           input_df (exec (script_body st) (after_load m F M))
             = DataFrame (overwrite_with (user_inputs (form_rendered st m F M)) d0) F"
proof -
  let ?fr = "form_rendered st m F M" and ?ip = "input_prepared st m F M"
  from assms have fr: "raised ?fr = None"
    by (auto simp: input_prepared_cases split: if_splits)
  from assms fr obtain d0 where d0: "mean_init M F [] = Inr d0"
    by (cases "mean_init M F []") (auto simp: input_prepared_cases)
  have "?ip = ?fr\<lparr>input_df_dict := overwrite_with (user_inputs ?fr) d0,
                   input_df := DataFrame (overwrite_with (user_inputs ?fr) d0) F\<rparr>"
    using fr d0 by (simp add: input_prepared_cases)
  then have "user_inputs ?ip = user_inputs ?fr"
    "input_df ?ip = DataFrame (overwrite_with (user_inputs ?fr) d0) F"
    by simp_all
  with d0 fr show ?thesis
    by (simp add: script_run footer_fields)
qed

subsection \<open>The example environments\<close>

lemma example_load:
  "load_artifacts (example_files m F M) = Inr (m, F, M)"
  by (simp add: load_artifacts_def example_files_def)

lemma form_rendered_ok:
  assumes "\<And>fld. fld \<in> set form_fields \<Longrightarrow>
             (\<exists>d. field_default M fld = Inr d) \<and>
             (\<exists>v. number_input st (field_args M fld) = Inr v)"
  shows "raised (form_rendered st m F M) = None"
proof -
  have gen: "raised (exec (map (field_step st) fl) s) = None"
    if "set fl \<subseteq> set form_fields" "raised s = None" "feature_means s = M" for fl s
    using that
  proof (induction fl arbitrary: s)
    case Nil
    then show ?case by simp
  next
    case (Cons fld fl)
    then have "fst fld \<in> set (map fst form_fields)" by auto
    then have nm: "fst fld \<in> fst ` set input_features_display_names"
      by (simp add: form_fields_names)
    from Cons.prems have "fld \<in> set form_fields" by simp
    from assms [OF this] obtain d v where d: "field_default M fld = Inr d"
      and v: "number_input st (field_args M fld) = Inr v"
      by blast
    let ?s' = "field_step st fld s"
    have s': "?s' = s\<lparr>user_inputs := dict_setitem (user_inputs s) (fst fld) v,
                      screen := screen s @ [NumberInput (field_args M fld)]\<rparr>"
      using d v Cons.prems(3) by (simp add: field_step_cases [OF nm])
    have "raised (exec (map (field_step st) fl) ?s') = None"
      using Cons.prems by (intro Cons.IH) (auto simp: s')
    then show ?case using Cons.prems(2) by simp
  qed
  have "raised (exec header (after_load m F M)) = None"
    "feature_means (exec header (after_load m F M)) = M"
    unfolding header_exec by (simp_all add: after_load_def)
  then show ?thesis
    unfolding form_rendered_exec form_as_map by (intro gen) simp_all
qed

lemma small_means_default:
  assumes "\<forall>(k, v) \<in> set M. \<bar>v\<bar> \<le> 2 ^ 53"
  shows "field_default M fld = Inr (dict_get M (fst fld) 0)"
proof (cases "map_of M (fst fld)")
  case None
  then show ?thesis by (simp add: field_default_def dict_get_def py_float_zero)
next
  case (Some v)
  then have "(fst fld, v) \<in> set M" by (rule map_of_SomeD)
  with assms have "\<bar>v\<bar> \<le> 2 ^ 53" by blast
  then show ?thesis by (simp add: field_default_def dict_get_def Some py_float_exact)
qed

lemma scenario_means_small: "\<forall>(k, v) \<in> set scenario_means. \<bar>v\<bar> \<le> 2 ^ 53"
  by (simp add: scenario_means_def)

lemma example_means_small: "\<forall>(k, v) \<in> set example_means. \<bar>v\<bar> \<le> 2 ^ 53"
  by (simp add: example_means_def)

lemma views_edited_rendered:
  assumes "\<forall>(k, v) \<in> set M. \<bar>v\<bar> \<le> 2 ^ 53"
  shows "raised (form_rendered views_edited m F M) = None"
  by (rule form_rendered_ok) (simp add: views_edited_def small_means_default [OF assms])

lemma views_edited_scenario:
  "raised (form_rendered views_edited m F scenario_means) = None"
  by (rule views_edited_rendered [OF scenario_means_small])

lemma views_edited_example:
  "raised (form_rendered views_edited m F example_means) = None"
  by (rule views_edited_rendered [OF example_means_small])

lemma run_script_loaded:
  "load_artifacts fs = Inr (m, F, M) \<Longrightarrow>
     run_script fs st = Ran (exec (script_body st) (after_load m F M))"
  by (simp add: run_script_def)

lemma count_list_distinct: "distinct xs \<Longrightarrow> x \<in> set xs \<Longrightarrow> count_list xs x = 1"
  by (induction xs) (auto simp: count_list_0_iff)

lemma input_prepared_ok:
  assumes "raised (form_rendered st m F M) = None" and "set F \<subseteq> fst ` set M"
  shows "raised (input_prepared st m F M) = None"
proof -
  from mean_init_covered [OF assms(2)] obtain d0 where "mean_init M F [] = Inr d0"
    by blast
  with assms(1) show ?thesis
    by (simp add: input_prepared_cases)
qed

subsection \<open>Invariants of a run\<close>

lemma run_script_Ran:
  assumes "run_script fs st = Ran s"
  shows "\<exists>m F M. load_artifacts fs = Inr (m, F, M) \<and>
           s = exec (script_body st) (after_load m F M)"
  using assms
  by (auto simp: run_script_def split: sum.splits py_exception.splits)

lemma form_fields_percentage:
  "(n, mx, stp) \<in> set form_fields \<Longrightarrow> n \<in> set percentage_features \<Longrightarrow> mx = Some 100"
  by (auto simp: form_fields_def percentage_features_def)

lemma form_fields_percentage_max:
  "(n, Some b, stp) \<in> set form_fields \<Longrightarrow> b = 100 \<and> n \<in> set percentage_features"
  by (auto simp: form_fields_def percentage_features_def)

lemma form_fields_percentage_label:
  "(n, mx, stp) \<in> set form_fields \<Longrightarrow>
   dict_getitem input_features_display_names n = Inr l \<Longrightarrow>
   l \<in> set (map (\<lambda>k. dict_get input_features_display_names k []) percentage_features) \<Longrightarrow>
   mx = Some 100"
  by (auto simp: form_fields_def percentage_features_def dict_getitem_def dict_get_def
        input_features_display_names_def)

lemma script_step_cases:
  assumes "c \<in> set (script_body st)"
  obtains (plain) "user_inputs (c s) = user_inputs s" "screen (c s) = screen s"
  | (reset) "user_inputs (c s) = []" "screen (c s) = screen s"
  | (emitted) e where "user_inputs (c s) = user_inputs s" "screen (c s) = screen s @ [e]"
      "\<And>a. e \<noteq> NumberInput a"
  | (field) n mx stp where "(n, mx, stp) \<in> set form_fields" "c = input_field st n mx stp"
  | (button) "c = predict_button st"
proof -
  from assms consider "c \<in> set header" | "c \<in> set (form st)" | "c \<in> set prepare_input"
    | "c \<in> set (footer st)"
    by (auto simp: script_body_def)
  then show ?thesis
  proof cases
    case 1
    then consider "c = (\<lambda>s. s\<lparr>user_inputs := []\<rparr>)"
      | e where "c = emit e" "\<And>a. e \<noteq> NumberInput a"
      by (auto simp: header_def)
    then show ?thesis
    proof cases
      case 1
      then show ?thesis by (intro reset) simp_all
    next
      case 2
      then show ?thesis by (intro emitted [of e]) (simp_all add: emit_fields)
    qed
  next
    case 2
    then obtain fld where fld: "fld \<in> set form_fields" "c = field_step st fld"
      by (auto simp: form_as_map)
    obtain n mx stp where f: "fld = (n, mx, stp)" by (cases fld)
    show ?thesis
      using fld unfolding f by (intro field [of n mx stp]) (simp_all add: field_step_def)
  next
    case 3
    then show ?thesis
      by (intro plain) (auto simp: prepare_input_def prepare_fields)
  next
    case 4
    then consider "c = predict_button st" | e where "c = emit e" "\<And>a. e \<noteq> NumberInput a"
      by (auto simp: footer_def)
    then show ?thesis
    proof cases
      case 1
      then show ?thesis by (rule button)
    next
      case 2
      then show ?thesis by (intro emitted [of e]) (simp_all add: emit_fields)
    qed
  qed
qed

lemma predict_button_configured:
  "bounds_configured (screen (predict_button st s)) = bounds_configured (screen s)"
  by (auto simp: bounds_configured_def predict_button_screen split: prediction.splits)

lemma script_step_within_bounds:
  assumes "honours_bounds st" and "c \<in> set (script_body st)"
    and "within_bounds (user_inputs s)"
  shows "within_bounds (user_inputs (c s))"
  using assms(2)
proof (cases rule: script_step_cases [where s = s])
  case reset
  then show ?thesis by (simp add: within_bounds_def)
next
  case (field n mx stp)
  show ?thesis
    unfolding field(2)
    by (rule input_field_bounds [OF assms(1) form_fields_percentage [OF field(1)] assms(3)])
next
  case button
  then show ?thesis using assms(3) by (simp add: predict_button_fields)
qed (use assms(3) in simp_all)

lemma script_step_configured:
  assumes "c \<in> set (script_body st)" and "bounds_configured (screen s)"
  shows "bounds_configured (screen (c s))"
  using assms(1)
proof (cases rule: script_step_cases [where s = s])
  case (emitted e)
  then show ?thesis using assms(2) by (auto simp: bounds_configured_def)
next
  case (field n mx stp)
  show ?thesis
    unfolding field(2)
    by (rule input_field_configured [OF form_fields_percentage_label [OF field(1)] assms(2)])
next
  case button
  then show ?thesis using assms(2) by (simp add: predict_button_configured)
qed (use assms(2) in simp_all)

lemma script_within_bounds:
  assumes "honours_bounds st"
  shows "within_bounds (user_inputs (exec (script_body st) (after_load m F M)))"
proof (rule exec_invariant [where I = "\<lambda>s :: state. within_bounds (user_inputs s)"])
  show "within_bounds (user_inputs (after_load m F M))"
    by (simp add: after_load_def within_bounds_def)
next
  fix c :: "state \<Rightarrow> state" and s :: state
  assume "c \<in> set (script_body st)" and "within_bounds (user_inputs s)"
  with assms show "within_bounds (user_inputs (c s))"
    by (rule script_step_within_bounds)
qed

lemma script_configured:
  "bounds_configured (screen (exec (script_body st) (after_load m F M)))"
proof (rule exec_invariant [where I = "\<lambda>s :: state. bounds_configured (screen s)"])
  show "bounds_configured (screen (after_load m F M))"
    by (simp add: after_load_def bounds_configured_def)
next
  fix c :: "state \<Rightarrow> state" and s :: state
  assume "c \<in> set (script_body st)" and "bounds_configured (screen s)"
  then show "bounds_configured (screen (c s))"
    by (rule script_step_configured)
qed

lemma form_rendered_valid:
  assumes "renders_valid_defaults st" and "defaults_within_bounds M"
  shows "raised (form_rendered st m F M) = None"
proof (rule form_rendered_ok)
  fix fld assume fld: "fld \<in> set form_fields"
  obtain n mx stp where f: "fld = (n, mx, stp)" by (cases fld)
  have "n \<in> set (map fst form_fields)"
    using fld f by force
  then have "n \<in> set (map fst input_features_display_names)"
    by (simp add: form_fields_names)
  with assms(2) obtain d where d: "py_float (dict_get M n 0) = Inr d" "0 \<le> d"
    "n \<in> set percentage_features \<Longrightarrow> d \<le> 100"
    unfolding defaults_within_bounds_def by blast
  have dflt: "field_default M fld = Inr d"
    by (simp add: field_default_def f d(1))
  have args: "min_value (field_args M fld) = 0" "max_value (field_args M fld) = mx"
    "value' (field_args M fld) = d"
    using dflt by (simp_all add: field_args_def f)
  have "d \<le> b" if "mx = Some b" for b
  proof -
    from that fld f have "b = 100 \<and> n \<in> set percentage_features"
      using form_fields_percentage_max by blast
    with d(3) show ?thesis by simp
  qed
  with d(2) args have "min_value (field_args M fld) \<le> value' (field_args M fld) \<and>
      (\<forall>b. max_value (field_args M fld) = Some b \<longrightarrow> value' (field_args M fld) \<le> b)"
    by simp
  with assms(1) have "\<exists>v. number_input st (field_args M fld) = Inr v"
    unfolding renders_valid_defaults_def by blast
  with dflt show "(\<exists>d. field_default M fld = Inr d) \<and>
           (\<exists>v. number_input st (field_args M fld) = Inr v)"
    by blast
qed

lemma untouched_renders_valid: "renders_valid_defaults untouched_widgets"
  by (auto simp: renders_valid_defaults_def untouched_widgets_def split: option.splits)

lemma example_defaults_within_bounds: "defaults_within_bounds example_means"
  by (simp add: defaults_within_bounds_def input_features_display_names_def dict_get_def
        example_means_def py_float_exact percentage_features_def)

lemma untouched_honours_bounds: "honours_bounds untouched_widgets"
  by (auto simp: honours_bounds_def untouched_widgets_def split: if_splits option.splits)

lemma untouched_rendered: "raised (form_rendered untouched_widgets m F example_means) = None"
  by (rule form_rendered_valid [OF untouched_renders_valid example_defaults_within_bounds])

lemma untouched_user_inputs:
  "user_inputs (form_rendered untouched_widgets m F example_means) =
     [(''Views'', 1000), (''Watch Time (hours)'', 0), (''Subscribers'', 0),
      (''Video Duration'', 0), (''Likes'', 0), (''New Comments'', 0), (''Shares'', 0),
      (''Impressions'', 0), (''Video Thumbnail CTR (%)'', 4),
      (''Average View Percentage (%)'', 0), (''Average View Duration'', 0)]"
  unfolding form_rendered_exec header_exec
  by (simp add: form_def input_field_def input_features_display_names_def dict_getitem_def
        dict_get_def example_means_def untouched_widgets_def after_load_def py_float_exact)

lemma final_number_inputs:
  assumes "raised (form_rendered st m F M) = None"
  shows "number_inputs (screen (exec (script_body st) (after_load m F M)))
           = map (field_args M) form_fields"
proof -
  have "screen (input_prepared st m F M) = screen (form_rendered st m F M)"
    by (simp add: input_prepared_cases split: sum.splits)
  then show ?thesis
    by (simp add: script_run footer_number_inputs form_rendered_inputs [OF assms])
qed

subsection \<open>Means that do not cover the features\<close>

lemma mean_init_first_missing:
  "mean_init M F d = Inl e \<longleftrightarrow>
     (\<exists>g. find (\<lambda>x. x \<notin> fst ` set M) F = Some g \<and> e = KeyError g)"
proof (induction F arbitrary: d)
  case Nil
  then show ?case by simp
next
  case (Cons f rest)
  show ?case
  proof (cases "map_of M f")
    case None
    then have "f \<notin> fst ` set M" by (simp add: map_of_eq_None_iff)
    with None show ?thesis by (auto simp: dict_getitem_def)
  next
    case (Some v)
    then have "f \<in> fst ` set M" by (metis map_of_eq_None_iff option.distinct(1))
    with Some Cons.IH [of "dict_setitem d f v"] show ?thesis
      by (simp add: dict_getitem_def)
  qed
qed

lemma mean_init_ok_iff:
  "(\<exists>d'. mean_init M F d = Inr d') \<longleftrightarrow> set F \<subseteq> fst ` set M"
proof
  assume "\<exists>d'. mean_init M F d = Inr d'"
  then obtain d' where d': "mean_init M F d = Inr d'" by blast
  show "set F \<subseteq> fst ` set M"
  proof
    fix f assume "f \<in> set F"
    then have "f \<in> fst ` set d'" and "map_of d' f = map_of M f"
      using mean_init_keys [OF d'] mean_init_Inr [OF d', of f] by simp_all
    then show "f \<in> fst ` set M"
      by (metis map_of_eq_None_iff)
  qed
next
  assume "set F \<subseteq> fst ` set M"
  then show "\<exists>d'. mean_init M F d = Inr d'" by (rule mean_init_covered)
qed

lemma mean_init_keys_init:
  "mean_init M F [] = Inr d \<Longrightarrow> fst ` set d = set F"
  using mean_init_keys [of M F "[]" d] by simp

lemma overwrite_with_skip:
  assumes "k \<notin> fst ` set d"
  shows "overwrite_with (U1 @ (k, v) # U2) d = overwrite_with (U1 @ U2) d"
proof -
  have "fst ` set (overwrite_with U1 d) = fst ` set d"
    using arg_cong [OF overwrite_with_keys [of U1 d], of set] by simp
  with assms have "\<not> dict_contains (overwrite_with U1 d) k"
    by (simp add: dict_contains_iff)
  then show ?thesis
    by (simp add: overwrite_with_append)
qed

subsection \<open>The three loads\<close>

lemma load_artifacts_cases:
  "load_artifacts fs =
     (case model_file fs of
        Absent \<Rightarrow> Inl (FileNotFoundError ''youtube_revenue_model.joblib'')
      | Unreadable t \<Rightarrow> Inl (Exception t)
      | Present m \<Rightarrow>
         (case features_file fs of
            Absent \<Rightarrow> Inl (FileNotFoundError ''model_features.joblib'')
          | Unreadable t \<Rightarrow> Inl (Exception t)
          | Present F \<Rightarrow>
             (case means_file fs of
                Absent \<Rightarrow> Inl (FileNotFoundError ''feature_means.joblib'')
              | Unreadable t \<Rightarrow> Inl (Exception t)
              | Present M \<Rightarrow> Inr (m, F, M))))"
  by (simp add: load_artifacts_def split: disk_file.splits)

lemma missing_files_message_names:
  "missing_files_message =
     ''Error: Model files not found. Please ensure '' @
     [CHR 0x27] @ ''youtube_revenue_model.joblib'' @ [CHR 0x27] @ '', '' @
     [CHR 0x27] @ ''model_features.joblib'' @ [CHR 0x27] @ '', and '' @
     [CHR 0x27] @ ''feature_means.joblib'' @ [CHR 0x27] @
     '' are in the same directory as this app.''"
  by (simp add: missing_files_message_def)

section \<open>The feature vector\<close>

lemma feature_vector_general:
  assumes cov: "set F \<subseteq> fst ` set M" and dist: "distinct (map fst U)"
  shows "\<exists>d0 df. mean_init M F [] = Inr d0 \<and> feature_vector M F U = Inr df \<and>
           columns df = F \<and>
           cells df = map (\<lambda>f. if dict_contains U f \<and> dict_contains d0 f
                                then map_of U f else map_of M f) F \<and>
           None \<notin> set (cells df)"
proof -
  from mean_init_covered [OF cov] obtain d0 where d0: "mean_init M F [] = Inr d0"
    by blast
  let ?df = "DataFrame (overwrite_with U d0) F"
  have fv: "feature_vector M F U = Inr ?df"
    by (simp add: feature_vector_def d0)
  have cell: "map_of (overwrite_with U d0) f =
                (if dict_contains U f \<and> dict_contains d0 f then map_of U f else map_of M f)
              \<and> map_of (overwrite_with U d0) f \<noteq> None"
    if f: "f \<in> set F" for f
  proof -
    from f cov obtain m where m: "map_of M f = Some m"
      by (cases "map_of M f") (auto simp: map_of_eq_None_iff)
    have "map_of d0 f = Some m"
      using mean_init_Inr [OF d0, of f] f m by simp
    then show ?thesis
      by (simp add: overwrite_with_map_of map_of_rev_distinct [OF dist] dict_contains_def m
               split: option.splits)
  qed
  have "cells ?df = map (\<lambda>f. if dict_contains U f \<and> dict_contains d0 f
                                then map_of U f else map_of M f) F"
    using cell by (simp add: DataFrame_def)
  moreover have "None \<notin> set (cells ?df)"
  proof
    assume "None \<in> set (cells ?df)"
    then obtain f where "f \<in> set F" "map_of (overwrite_with U d0) f = None"
      by (auto simp: DataFrame_def)
    with cell show False by blast
  qed
  moreover have "columns ?df = F"
    by (simp add: DataFrame_def)
  ultimately show ?thesis using d0 fv by blast
qed

text \<open>
  Claim C1. For a feature list \<open>F\<close>, means \<open>M\<close> that cover \<open>F\<close> and user inputs \<open>U\<close> (a
  dict, so with distinct keys), the construction succeeds, the columns are \<open>F\<close>, and the
  cell of each feature \<open>f\<close> of \<open>F\<close> is \<open>U[f]\<close> when \<open>f\<close> is a key of both \<open>U\<close> and the
  mean-initialised dict, and \<open>M[f]\<close> otherwise; no cell is missing. In the scenario (means
  1000 for Views, 50 for Subscribers, 0 for the others, the model expecting Views,
  Subscribers, Likes, and the one user value Views = 5000) the vector is 5000, 50, 0 in
  that order.
\<close>

theorem feature_vector_values:
  assumes "set F \<subseteq> fst ` set M" and "distinct (map fst U)"
  shows "(\<exists>d0 df. mean_init M F [] = Inr d0 \<and> feature_vector M F U = Inr df \<and>
            columns df = F \<and>
            cells df = map (\<lambda>f. if dict_contains U f \<and> dict_contains d0 f
                                 then map_of U f else map_of M f) F \<and>
            None \<notin> set (cells df))
         \<and> feature_vector scenario_means [''Views'', ''Subscribers'', ''Likes'']
               [(''Views'', 5000)]
             = Inr \<lparr>columns = [''Views'', ''Subscribers'', ''Likes''],
                     cells = [Some 5000, Some 50, Some 0]\<rparr>"
proof
  show "\<exists>d0 df. mean_init M F [] = Inr d0 \<and> feature_vector M F U = Inr df \<and>
            columns df = F \<and>
            cells df = map (\<lambda>f. if dict_contains U f \<and> dict_contains d0 f
                                 then map_of U f else map_of M f) F \<and>
            None \<notin> set (cells df)"
    using assms by (rule feature_vector_general)
  show "feature_vector scenario_means [''Views'', ''Subscribers'', ''Likes'']
               [(''Views'', 5000)]
             = Inr \<lparr>columns = [''Views'', ''Subscribers'', ''Likes''],
                     cells = [Some 5000, Some 50, Some 0]\<rparr>"
    by (simp add: feature_vector_def scenario_means_def DataFrame_def dict_getitem_def
          dict_contains_def)
qed

theorem feature_vector_values_witness:
  "set [''Views'', ''Subscribers'', ''Likes''] \<subseteq> fst ` set scenario_means \<and>
   distinct (map fst [(''Views'', 5000 :: real)]) \<and>
   (\<exists>d0 df. mean_init scenario_means [''Views'', ''Subscribers'', ''Likes''] [] = Inr d0 \<and>
      feature_vector scenario_means [''Views'', ''Subscribers'', ''Likes'']
        [(''Views'', 5000)] = Inr df \<and>
      columns df = [''Views'', ''Subscribers'', ''Likes''] \<and>
      cells df = map (\<lambda>f. if dict_contains [(''Views'', 5000 :: real)] f \<and> dict_contains d0 f
                           then map_of [(''Views'', 5000)] f else map_of scenario_means f)
                   [''Views'', ''Subscribers'', ''Likes''] \<and>
      None \<notin> set (cells df))"
proof -
  have cov: "set [''Views'', ''Subscribers'', ''Likes''] \<subseteq> fst ` set scenario_means"
    by (simp add: scenario_means_def)
  have dist: "distinct (map fst [(''Views'', 5000 :: real)])"
    by simp
  show ?thesis
    by (intro conjI cov dist conjunct1 [OF feature_vector_values [OF cov dist]])
qed

text \<open>
  Claim C2. Whatever the widgets return (every combination of user-entered values), when
  a run constructs the input (it reaches line 147), the columns of the data frame handed to \<^verbatim>\<open>predict\<close> are the
  model's feature list itself, in its order, with one cell per column; for a feature list
  without repetitions every expected name is therefore a column exactly once.
\<close>

theorem column_order:
  assumes "load_artifacts fs = Inr (m, F, M)"
    and "run_script fs st = Ran s"
    and "raised (input_prepared st m F M) = None"
  shows "columns (input_df s) = F \<and> length (cells (input_df s)) = length F \<and>
         (distinct F \<longrightarrow> (\<forall>f \<in> set F. count_list (columns (input_df s)) f = 1))"
proof -
  from assms(1,2) have s: "s = exec (script_body st) (after_load m F M)"
    by (simp add: run_script_loaded)
  from prepared_run [OF assms(3)] obtain d0 where
    "input_df s = DataFrame (overwrite_with (user_inputs (form_rendered st m F M)) d0) F"
    unfolding s by blast
  then show ?thesis
    by (simp add: DataFrame_def count_list_distinct)
qed

theorem column_order_witness:
  "load_artifacts (example_files constant_model scenario_features scenario_means)
     = Inr (constant_model, scenario_features, scenario_means) \<and>
   raised (input_prepared views_edited constant_model scenario_features scenario_means)
     = None \<and>
   distinct scenario_features \<and>
   columns (input_df (exec (script_body views_edited)
             (after_load constant_model scenario_features scenario_means)))
     = [''Views'', ''Subscribers'', ''Likes''] \<and>
   count_list (columns (input_df (exec (script_body views_edited)
             (after_load constant_model scenario_features scenario_means)))) ''Likes'' = 1"
proof -
  let ?s = "exec (script_body views_edited)
              (after_load constant_model scenario_features scenario_means)"
  have run: "run_script (example_files constant_model scenario_features scenario_means) views_edited = Ran ?s"
    by (simp add: run_script_loaded example_load)
  have d: "distinct scenario_features" and l: "''Likes'' \<in> set scenario_features"
    by (simp_all add: scenario_features_def)
  have fin: "raised (input_prepared views_edited constant_model scenario_features
                     scenario_means) = None"
    by (rule input_prepared_ok [OF views_edited_scenario])
       (simp add: scenario_features_def scenario_means_def)
  from column_order [OF example_load run fin] d l
  have "columns (input_df ?s) = scenario_features"
    and "count_list (columns (input_df ?s)) ''Likes'' = 1"
    by blast+
  with example_load fin d show ?thesis
    by (simp add: scenario_features_def)
qed

text \<open>
  Claim C3. In a run that constructs the input, the cell of a feature that the model
  expects and the form does not show is the mean of that feature, whatever the widgets
  returned.
\<close>

theorem hidden_features_keep_mean:
  assumes "load_artifacts fs = Inr (m, F, M)"
    and "run_script fs st = Ran s"
    and "raised (input_prepared st m F M) = None"
    and "i < length F"
    and "F ! i \<notin> fst ` set input_features_display_names"
  shows "\<exists>mean. map_of M (F ! i) = Some mean \<and> cells (input_df s) ! i = Some mean"
proof -
  let ?U = "user_inputs (form_rendered st m F M)"
  from assms(1,2) have s: "s = exec (script_body st) (after_load m F M)"
    by (simp add: run_script_loaded)
  from prepared_run [OF assms(3)] obtain d0 where
    d0: "mean_init M F [] = Inr d0" and
    df: "input_df s = DataFrame (overwrite_with ?U d0) F"
    unfolding s by blast
  let ?f = "F ! i"
  have f: "?f \<in> set F" using assms(4) by simp
  have "?f \<in> fst ` set d0"
    using mean_init_keys [OF d0] f by simp
  then obtain mean where mean: "map_of d0 ?f = Some mean"
    by (cases "map_of d0 ?f") (auto simp: map_of_eq_None_iff)
  then have M: "map_of M ?f = Some mean"
    using mean_init_Inr [OF d0, of ?f] f by simp
  have "?f \<notin> fst ` set ?U"
    using form_rendered_keys [of st m F M] assms(5) by blast
  then have "map_of (rev ?U) ?f = None"
    by (simp add: map_of_eq_None_iff)
  then have "map_of (overwrite_with ?U d0) ?f = Some mean"
    by (simp add: overwrite_with_map_of mean)
  then have "cells (input_df s) ! i = Some mean"
    using assms(4) by (simp add: df DataFrame_def)
  with M show ?thesis by blast
qed

theorem hidden_features_keep_mean_witness:
  "load_artifacts (example_files constant_model example_features example_means)
     = Inr (constant_model, example_features, example_means) \<and>
   raised (input_prepared views_edited constant_model example_features example_means)
     = None \<and>
   (1 :: nat) < length example_features \<and>
   example_features ! 1 = ''Dislikes'' \<and>
   ''Dislikes'' \<notin> fst ` set input_features_display_names \<and>
   map_of example_means ''Dislikes'' = Some 7 \<and>
   cells (input_df (exec (script_body views_edited)
             (after_load constant_model example_features example_means))) ! 1 = Some 7"
proof -
  let ?s = "exec (script_body views_edited)
              (after_load constant_model example_features example_means)"
  have run: "run_script (example_files constant_model example_features example_means) views_edited = Ran ?s"
    by (simp add: run_script_loaded example_load)
  have fin: "raised (input_prepared views_edited constant_model example_features
                     example_means) = None"
    by (rule input_prepared_ok [OF views_edited_example])
       (simp add: example_features_def example_means_def)
  have i: "(1 :: nat) < length example_features" and f: "example_features ! 1 = ''Dislikes''"
    by (simp_all add: example_features_def)
  have hid: "example_features ! 1 \<notin> fst ` set input_features_display_names"
    by (simp add: example_features_def input_features_display_names_def)
  have M: "map_of example_means ''Dislikes'' = Some 7"
    by (simp add: example_means_def)
  from hidden_features_keep_mean [OF example_load run fin i hid]
  obtain mean where "map_of example_means (example_features ! 1) = Some mean"
    and c: "cells (input_df ?s) ! 1 = Some mean"
    by blast
  then have "mean = 7"
    unfolding f M by simp
  with c have "cells (input_df ?s) ! 1 = Some 7"
    by simp
  with example_load fin i f hid M show ?thesis
    by simp
qed

section \<open>Loading the artifacts\<close>

text \<open>
  Claim C4 says that a run with an absent or unreadable artifact halts before the form and
  shows an error naming the missing artifacts. For an unreadable file this is not what the
  script does: \<^verbatim>\<open>except FileNotFoundError\<close> does not catch the exception of a file that is
  there and cannot be read, so the run ends with that exception and the script shows no
  message. Here the model file is unreadable; the page stays empty.
\<close>

theorem unreadable_artifact_shows_no_message:
  "model_file unreadable_model_files = Unreadable ''[Errno 13] Permission denied'' \<and>
   \<not> list_ex is_error (shown (run_script unreadable_model_files untouched_widgets)) \<and>
   run_script unreadable_model_files untouched_widgets
     = Halted [] (Uncaught (Exception ''[Errno 13] Permission denied''))"
  by (simp add: run_script_def load_artifacts_def unreadable_model_files_def)

text \<open>
  Claim C4, amended. When a load fails, the first failure decides. If it is an absent file
  (\<^verbatim>\<open>FileNotFoundError\<close>), the run shows one fixed message that lists the three required
  file names, whichever of them is missing, and stops. If it is a file that cannot be
  read, the exception leaves the script uncaught and nothing is shown. In both cases the
  run ends before any input or the button is rendered, so no artifact is ever used
  without the others. A load fails exactly when one of the three files is not a readable
  file.
\<close>

theorem load_failure_halts:
  "(load_artifacts fs = Inl e \<longrightarrow>
      run_script fs st =
        (case e of
           FileNotFoundError p \<Rightarrow> Halted [Error missing_files_message] StopException
         | KeyError k \<Rightarrow> Halted [] (Uncaught e)
         | Exception t \<Rightarrow> Halted [] (Uncaught e)) \<and>
      number_inputs (shown (run_script fs st)) = [] \<and>
      Button ''Predict Estimated Revenue'' \<notin> set (shown (run_script fs st)) \<and>
      ending (run_script fs st) \<noteq> None) \<and>
   ((\<exists>e. load_artifacts fs = Inl e) \<longleftrightarrow>
      \<not> (\<exists>m F M. model_file fs = Present m \<and> features_file fs = Present F \<and>
                   means_file fs = Present M)) \<and>
   ((\<exists>p. load_artifacts fs = Inl (FileNotFoundError p)) \<longleftrightarrow>
      model_file fs = Absent \<or>
      (\<exists>m. model_file fs = Present m) \<and>
        (features_file fs = Absent \<or>
         (\<exists>F. features_file fs = Present F) \<and> means_file fs = Absent)) \<and>
   missing_files_message =
     ''Error: Model files not found. Please ensure '' @
     [CHR 0x27] @ ''youtube_revenue_model.joblib'' @ [CHR 0x27] @ '', '' @
     [CHR 0x27] @ ''model_features.joblib'' @ [CHR 0x27] @ '', and '' @
     [CHR 0x27] @ ''feature_means.joblib'' @ [CHR 0x27] @
     '' are in the same directory as this app.''"
proof (intro conjI impI)
  assume e: "load_artifacts fs = Inl e"
  show "run_script fs st =
        (case e of
           FileNotFoundError p \<Rightarrow> Halted [Error missing_files_message] StopException
         | KeyError k \<Rightarrow> Halted [] (Uncaught e)
         | Exception t \<Rightarrow> Halted [] (Uncaught e))"
    by (simp add: run_script_def e split: py_exception.splits)
  then show "number_inputs (shown (run_script fs st)) = []"
    and "Button ''Predict Estimated Revenue'' \<notin> set (shown (run_script fs st))"
    and "ending (run_script fs st) \<noteq> None"
    by (simp_all split: py_exception.splits)
next
  show "(\<exists>e. load_artifacts fs = Inl e) \<longleftrightarrow>
      \<not> (\<exists>m F M. model_file fs = Present m \<and> features_file fs = Present F \<and>
                   means_file fs = Present M)"
    by (auto simp: load_artifacts_cases split: disk_file.splits)
next
  show "(\<exists>p. load_artifacts fs = Inl (FileNotFoundError p)) \<longleftrightarrow>
      model_file fs = Absent \<or>
      (\<exists>m. model_file fs = Present m) \<and>
        (features_file fs = Absent \<or>
         (\<exists>F. features_file fs = Present F) \<and> means_file fs = Absent)"
    by (auto simp: load_artifacts_cases split: disk_file.splits)
next
  show "missing_files_message =
     ''Error: Model files not found. Please ensure '' @
     [CHR 0x27] @ ''youtube_revenue_model.joblib'' @ [CHR 0x27] @ '', '' @
     [CHR 0x27] @ ''model_features.joblib'' @ [CHR 0x27] @ '', and '' @
     [CHR 0x27] @ ''feature_means.joblib'' @ [CHR 0x27] @
     '' are in the same directory as this app.''"
    by (rule missing_files_message_names)
qed

theorem load_failure_halts_witness:
  "load_artifacts missing_means_files = Inl (FileNotFoundError ''feature_means.joblib'') \<and>
   run_script missing_means_files views_edited
     = Halted [Error missing_files_message] StopException \<and>
   load_artifacts unreadable_model_files = Inl (Exception ''[Errno 13] Permission denied'') \<and>
   run_script unreadable_model_files views_edited
     = Halted [] (Uncaught (Exception ''[Errno 13] Permission denied''))"
proof -
  have a: "load_artifacts missing_means_files = Inl (FileNotFoundError ''feature_means.joblib'')"
    by (simp add: load_artifacts_def missing_means_files_def)
  have b: "load_artifacts unreadable_model_files
             = Inl (Exception ''[Errno 13] Permission denied'')"
    by (simp add: load_artifacts_def unreadable_model_files_def)
  from load_failure_halts [of missing_means_files _ views_edited] a
  have "run_script missing_means_files views_edited
          = Halted [Error missing_files_message] StopException"
    by simp
  moreover from load_failure_halts [of unreadable_model_files _ views_edited] b
  have "run_script unreadable_model_files views_edited
          = Halted [] (Uncaught (Exception ''[Errno 13] Permission denied''))"
    by simp
  ultimately show ?thesis using a b by blast
qed

section \<open>The form\<close>

text \<open>
  Claim C6 says that for every valid artifact triple the form renders 11 number inputs
  whose defaults are the means. The script passes \<^verbatim>\<open>min_value=0.0\<close> (and
  \<^verbatim>\<open>max_value=100.0\<close> for the percentages) together with the mean as default, and
  Streamlit refuses a default outside the bounds of the call. Here the artifacts load, the
  mean of the views is negative, and the first \<^verbatim>\<open>st.number_input\<close> raises: the run ends
  there and the page has no number input.
\<close>

theorem negative_mean_renders_no_input:
  "load_artifacts (example_files constant_model scenario_features negative_means)
     = Inr (constant_model, scenario_features, negative_means) \<and>
   dict_get negative_means ''Views'' 0 = - 5 \<and>
   number_inputs (shown (run_script
       (example_files constant_model scenario_features negative_means) untouched_widgets))
     = [] \<and>
   ending (run_script
       (example_files constant_model scenario_features negative_means) untouched_widgets)
     = Some (Uncaught (Exception ''StreamlitAPIException''))"
proof -
  let ?s0 = "after_load constant_model scenario_features negative_means"
  let ?h = "exec header ?s0"
  let ?views = "input_field untouched_widgets ''Views'' None 1000"
  have h: "raised ?h = None" "feature_means ?h = negative_means"
    "number_inputs (screen ?h) = []"
    unfolding header_exec by (simp_all add: after_load_def)
  have l: "dict_getitem input_features_display_names ''Views'' = Inr ''Total Views''"
    by (simp add: dict_getitem_def input_features_display_names_def)
  have get: "dict_get negative_means ''Views'' 0 = - 5"
    by (simp add: dict_get_def negative_means_def)
  have d: "py_float (- 5) = Inr (- 5)"
    by (simp add: py_float_exact)
  have n: "number_input untouched_widgets
             \<lparr>label = ''Total Views'', min_value = 0, max_value = None, value' = - 5,
              step = 1000, format = ''%.2f''\<rparr> = Inl (Exception ''StreamlitAPIException'')"
    by (simp add: untouched_widgets_def)
  have first: "?views ?h = ?h\<lparr>raised := Some (Uncaught (Exception ''StreamlitAPIException''))\<rparr>"
    by (simp add: input_field_def l h(2) get d n)
  have "form untouched_widgets = ?views # tl (form untouched_widgets)"
    by (simp add: form_def)
  then have "exec (form untouched_widgets) ?h = exec (?views # tl (form untouched_widgets)) ?h"
    by simp
  also have "\<dots> = ?views ?h"
    by (rule exec_first_raises [OF h(1)]) (simp add: first)
  finally have fr: "exec (form untouched_widgets) ?h
      = ?h\<lparr>raised := Some (Uncaught (Exception ''StreamlitAPIException''))\<rparr>"
    by (simp only: first)
  have "exec (script_body untouched_widgets) ?s0
          = ?h\<lparr>raised := Some (Uncaught (Exception ''StreamlitAPIException''))\<rparr>"
    by (simp add: script_body_def exec_append fr exec_raised del: exec.simps)
  then show ?thesis
    using h(3) get by (simp add: run_script_loaded [OF example_load] example_load)
qed

text \<open>
  Claim C6, amended. Take artifacts that load and means for which the default of every
  field, \<^verbatim>\<open>float(feature_means.get(name, 0))\<close>, exists and lies within the bounds of the
  field (at least 0, and at most 100 for the two percentages). Streamlit renders a number
  input whose default is within its bounds (\<open>renders_valid_defaults\<close>). Then the page of the
  run has exactly 11 number inputs, labelled with the display names in their order, and
  the default of each is \<^verbatim>\<open>float\<close> of the mean of its feature, or of 0 when the means
  have no entry for it. That is the mean itself, unless the mean is an integer of more
  than \<open>2 ^ 53\<close> in size, which \<^verbatim>\<open>float\<close> rounds.
\<close>

theorem form_renders_eleven_inputs:
  assumes "load_artifacts fs = Inr (m, F, M)"
    and "renders_valid_defaults st"
    and "defaults_within_bounds M"
  shows "length (number_inputs (shown (run_script fs st))) = 11 \<and>
         map label (number_inputs (shown (run_script fs st)))
           = map snd input_features_display_names \<and>
         map (\<lambda>a. Inr (value' a)) (number_inputs (shown (run_script fs st)))
           = map (\<lambda>name. py_float (dict_get M name 0))
               (map fst input_features_display_names) \<and>
         (\<forall>name \<in> set (map fst input_features_display_names).
            \<bar>dict_get M name 0\<bar> \<le> 2 ^ 53 \<or>
            dict_get M name 0 \<noteq> of_int \<lfloor>dict_get M name 0\<rfloor> \<longrightarrow>
            py_float (dict_get M name 0) = Inr (dict_get M name 0))"
proof -
  have fr: "raised (form_rendered st m F M) = None"
    using assms(2,3) by (rule form_rendered_valid)
  have inputs: "number_inputs (shown (run_script fs st)) = map (field_args M) form_fields"
    using assms(1) fr by (simp add: run_script_loaded final_number_inputs)
  have dflts: "\<forall>fld \<in> set form_fields. field_default M fld = Inr (value' (field_args M fld))"
    using form_rendered_screen [OF fr] by blast
  have "length (map (field_args M) form_fields) = 11"
    by (simp add: form_fields_def)
  moreover have "map label (map (field_args M) form_fields)
                   = map snd input_features_display_names"
    by (simp add: form_fields_def field_args_def dict_get_def
          input_features_display_names_def)
  moreover have "map (\<lambda>a. Inr (value' a)) (map (field_args M) form_fields)
                   = map (\<lambda>name. py_float (dict_get M name 0))
                       (map fst input_features_display_names)"
  proof -
    have "map (\<lambda>a. Inr (value' a)) (map (field_args M) form_fields)
            = map (field_default M) form_fields"
      using dflts by (simp add: map_eq_conv)
    also have "\<dots> = map (\<lambda>name. py_float (dict_get M name 0)) (map fst form_fields)"
      by (simp add: field_default_def comp_def)
    finally show ?thesis by (simp only: form_fields_names)
  qed
  moreover have "\<forall>name \<in> set (map fst input_features_display_names).
            \<bar>dict_get M name 0\<bar> \<le> 2 ^ 53 \<or>
            dict_get M name 0 \<noteq> of_int \<lfloor>dict_get M name 0\<rfloor> \<longrightarrow>
            py_float (dict_get M name 0) = Inr (dict_get M name 0)"
    using py_float_exact by blast
  ultimately show ?thesis
    unfolding inputs by blast
qed

theorem form_renders_eleven_inputs_witness:
  "load_artifacts (example_files constant_model example_features example_means)
     = Inr (constant_model, example_features, example_means) \<and>
   renders_valid_defaults untouched_widgets \<and>
   defaults_within_bounds example_means \<and>
   length (number_inputs (shown (run_script
     (example_files constant_model example_features example_means) untouched_widgets))) = 11 \<and>
   map value' (number_inputs (shown (run_script
     (example_files constant_model example_features example_means) untouched_widgets)))
     = [1000, 0, 0, 0, 0, 0, 0, 0, 4, 0, 0]"
proof -
  let ?inputs = "number_inputs (shown (run_script
     (example_files constant_model example_features example_means) untouched_widgets))"
  note lib = untouched_renders_valid and ok = example_defaults_within_bounds
  from form_renders_eleven_inputs [OF example_load lib ok]
  have len: "length ?inputs = 11"
    and "map (\<lambda>a. Inr (value' a)) ?inputs
           = map (\<lambda>name. py_float (dict_get example_means name 0))
               (map fst input_features_display_names)"
    by blast+
  moreover have "map (\<lambda>name. py_float (dict_get example_means name 0))
               (map fst input_features_display_names)
             = map Inr [1000, 0, 0, 0, 0, 0, 0, 0, 4, 0, 0]"
    by (simp add: input_features_display_names_def dict_get_def example_means_def
          py_float_exact)
  ultimately have "map Inr (map value' ?inputs)
                     = (map Inr [1000, 0, 0, 0, 0, 0, 0, 0, 4, 0, 0]
                         :: (py_exception + real) list)"
    by (simp add: comp_def)
  then have "map value' ?inputs = [1000, 0, 0, 0, 0, 0, 0, 0, 4, 0, 0]"
    by (simp only: inj_map_eq_map [OF inj_Inr])
  with example_load lib ok len show ?thesis by blast
qed

text \<open>
  Claim C7. Every number input a run renders is configured with minimum 0, and the two
  percentage inputs with maximum 100. Streamlit keeps the value of a widget within the
  bounds of its call (\<open>honours_bounds\<close>); then every value in \<open>user_inputs\<close> is at least 0,
  and the two percentage values are at most 100.
\<close>

theorem form_values_within_bounds:
  assumes "honours_bounds st" and "run_script fs st = Ran s"
  shows "(\<forall>a. NumberInput a \<in> set (screen s) \<longrightarrow>
            min_value a = 0 \<and>
            (label a \<in> {''Video Thumbnail Click-Through Rate (%)'',
                         ''Average View Percentage (%)''} \<longrightarrow> max_value a = Some 100)) \<and>
         (\<forall>(k, v) \<in> set (user_inputs s).
            0 \<le> v \<and>
            (k \<in> {''Video Thumbnail CTR (%)'', ''Average View Percentage (%)''} \<longrightarrow> v \<le> 100))"
proof -
  from run_script_Ran [OF assms(2)] obtain m F M where
    s: "s = exec (script_body st) (after_load m F M)"
    by blast
  have labels: "set (map (\<lambda>k. dict_get input_features_display_names k []) percentage_features)
                  = {''Video Thumbnail Click-Through Rate (%)'', ''Average View Percentage (%)''}"
    by (simp add: percentage_features_def dict_get_def input_features_display_names_def)
  have names: "set percentage_features
                 = {''Video Thumbnail CTR (%)'', ''Average View Percentage (%)''}"
    by (simp add: percentage_features_def)
  from script_configured [of st m F M] script_within_bounds [OF assms(1), of m F M]
  show ?thesis
    unfolding s bounds_configured_def within_bounds_def labels names by blast
qed

theorem form_values_within_bounds_witness:
  "honours_bounds untouched_widgets \<and>
   (''Video Thumbnail CTR (%)'', 4) \<in> set (user_inputs (exec (script_body untouched_widgets)
       (after_load constant_model example_features example_means))) \<and>
   (0 :: real) \<le> 4 \<and> (4 :: real) \<le> 100"
proof -
  let ?s = "exec (script_body untouched_widgets)
              (after_load constant_model example_features example_means)"
  have run: "run_script (example_files constant_model example_features example_means)
               untouched_widgets = Ran ?s"
    by (simp add: run_script_loaded example_load)
  have "raised (input_prepared untouched_widgets constant_model example_features
          example_means) = None"
    by (rule input_prepared_ok [OF untouched_rendered])
       (simp add: example_features_def example_means_def)
  from prepared_run [OF this] have "user_inputs ?s
      = user_inputs (form_rendered untouched_widgets constant_model example_features example_means)"
    by blast
  then have mem: "(''Video Thumbnail CTR (%)'', 4) \<in> set (user_inputs ?s)"
    by (simp add: untouched_user_inputs)
  from form_values_within_bounds [OF untouched_honours_bounds run] mem
  have "(0 :: real) \<le> 4 \<and> (4 :: real) \<le> 100"
    by blast
  with untouched_honours_bounds mem show ?thesis by blast
qed

section \<open>The construction of the input\<close>

text \<open>
  Claim C8. A user input whose feature name is not in the model's feature list changes
  nothing: the construction gives the same result (the same data frame, or the same
  exception) as without that entry, and the loop over the user inputs puts nothing on the
  page and raises nothing.
\<close>

theorem unknown_user_input_dropped:
  assumes "k \<notin> set F"
  shows "feature_vector M F (U1 @ (k, v) # U2) = feature_vector M F (U1 @ U2) \<and>
         screen (update_input_df_dict s) = screen s \<and>
         raised (update_input_df_dict s) = raised s"
proof (cases "mean_init M F []")
  case (Inl e)
  then show ?thesis by (simp add: feature_vector_def prepare_fields)
next
  case (Inr d)
  with assms have "k \<notin> fst ` set d"
    by (simp add: mean_init_keys_init)
  then show ?thesis
    by (simp add: feature_vector_def Inr overwrite_with_skip prepare_fields)
qed

theorem unknown_user_input_dropped_witness:
  "''Shares'' \<notin> set scenario_features \<and>
   feature_vector scenario_means scenario_features [(''Views'', 5000), (''Shares'', 3)]
     = feature_vector scenario_means scenario_features [(''Views'', 5000)] \<and>
   feature_vector scenario_means scenario_features [(''Views'', 5000)]
     = Inr \<lparr>columns = [''Views'', ''Subscribers'', ''Likes''],
             cells = [Some 5000, Some 50, Some 0]\<rparr>"
proof -
  have k: "''Shares'' \<notin> set scenario_features"
    by (simp add: scenario_features_def)
  from unknown_user_input_dropped [OF k, of scenario_means "[(''Views'', 5000)]" 3 "[]"]
  have "feature_vector scenario_means scenario_features [(''Views'', 5000), (''Shares'', 3)]
     = feature_vector scenario_means scenario_features [(''Views'', 5000)]"
    by simp
  moreover have "feature_vector scenario_means scenario_features [(''Views'', 5000)]
     = Inr \<lparr>columns = [''Views'', ''Subscribers'', ''Likes''],
             cells = [Some 5000, Some 50, Some 0]\<rparr>"
    by (simp add: feature_vector_def scenario_means_def scenario_features_def DataFrame_def
          dict_getitem_def dict_contains_def)
  ultimately show ?thesis using k by blast
qed

text \<open>
  Claim C9. The mean initialisation succeeds exactly when the means have an entry for
  every feature of the model. Otherwise the lookup of the first feature without a mean
  raises \<^verbatim>\<open>KeyError\<close> (where \<^verbatim>\<open>.get(name, 0)\<close> of the form gives 0); nothing catches
  it, so the run ends with it right after the form, before the button.
\<close>

theorem missing_mean_raises_key_error:
  assumes "load_artifacts fs = Inr (m, F, M)"
    and "raised (form_rendered st m F M) = None"
    and "f \<in> set F" and "f \<notin> fst ` set M"
  shows "((\<exists>d. mean_init M F [] = Inr d) \<longleftrightarrow> set F \<subseteq> fst ` set M) \<and>
         (\<exists>g. find (\<lambda>x. x \<notin> fst ` set M) F = Some g \<and>
              dict_getitem M g = Inl (KeyError g) \<and> dict_get M g 0 = 0 \<and>
              mean_init M F [] = Inl (KeyError g) \<and>
              feature_vector M F U = Inl (KeyError g) \<and>
              ending (run_script fs st) = Some (Uncaught (KeyError g)) \<and>
              shown (run_script fs st) = screen (form_rendered st m F M))"
proof
  show "(\<exists>d. mean_init M F [] = Inr d) \<longleftrightarrow> set F \<subseteq> fst ` set M"
    by (rule mean_init_ok_iff)
next
  from assms(3,4) have "\<not> set F \<subseteq> fst ` set M" by blast
  then have "\<nexists>d. mean_init M F [] = Inr d"
    by (simp add: mean_init_ok_iff)
  then obtain e where e: "mean_init M F [] = Inl e"
    by (cases "mean_init M F []") auto
  then obtain g where g: "find (\<lambda>x. x \<notin> fst ` set M) F = Some g" and eg: "e = KeyError g"
    by (auto simp: mean_init_first_missing)
  from g have "g \<notin> fst ` set M"
    by (auto simp: find_Some_iff)
  then have none: "map_of M g = None"
    by (simp add: map_of_eq_None_iff)
  let ?fr = "form_rendered st m F M"
  have ip: "input_prepared st m F M = ?fr\<lparr>raised := Some (Uncaught (KeyError g))\<rparr>"
    using assms(2) e eg by (simp add: input_prepared_cases)
  have fin: "exec (script_body st) (after_load m F M) = ?fr\<lparr>raised := Some (Uncaught (KeyError g))\<rparr>"
    by (simp add: script_run ip exec_raised)
  have "ending (run_script fs st) = Some (Uncaught (KeyError g))"
    and "shown (run_script fs st) = screen ?fr"
    by (simp_all add: run_script_loaded [OF assms(1)] fin)
  moreover have "feature_vector M F U = Inl (KeyError g)"
    by (simp add: feature_vector_def e eg)
  moreover have "dict_getitem M g = Inl (KeyError g)" "dict_get M g 0 = 0"
    by (simp_all add: dict_getitem_def dict_get_def none)
  ultimately show "\<exists>g. find (\<lambda>x. x \<notin> fst ` set M) F = Some g \<and>
              dict_getitem M g = Inl (KeyError g) \<and> dict_get M g 0 = 0 \<and>
              mean_init M F [] = Inl (KeyError g) \<and>
              feature_vector M F U = Inl (KeyError g) \<and>
              ending (run_script fs st) = Some (Uncaught (KeyError g)) \<and>
              shown (run_script fs st) = screen (form_rendered st m F M)"
    using g e eg by blast
qed

theorem missing_mean_raises_key_error_witness:
  "load_artifacts (example_files constant_model uncovered_features scenario_means)
     = Inr (constant_model, uncovered_features, scenario_means) \<and>
   raised (form_rendered views_edited constant_model uncovered_features scenario_means) = None \<and>
   ''Comments'' \<in> set uncovered_features \<and> ''Comments'' \<notin> fst ` set scenario_means \<and>
   find (\<lambda>x. x \<notin> fst ` set scenario_means) uncovered_features = Some ''Dislikes'' \<and>
   ending (run_script (example_files constant_model uncovered_features scenario_means)
             views_edited) = Some (Uncaught (KeyError ''Dislikes''))"
proof -
  have f: "''Comments'' \<in> set uncovered_features"
    by (simp add: uncovered_features_def)
  have nf: "''Comments'' \<notin> fst ` set scenario_means"
    by (simp add: scenario_means_def)
  have g: "find (\<lambda>x. x \<notin> fst ` set scenario_means) uncovered_features = Some ''Dislikes''"
    by (simp add: uncovered_features_def scenario_means_def)
  from missing_mean_raises_key_error [OF example_load views_edited_scenario f nf]
  have "ending (run_script (example_files constant_model uncovered_features scenario_means)
             views_edited) = Some (Uncaught (KeyError ''Dislikes''))"
    unfolding g by auto
  with example_load views_edited_scenario f nf g show ?thesis
    by blast
qed

section \<open>The prediction\<close>

text \<open>
  Claim C5 says that every exception raised by \<^verbatim>\<open>predict\<close> is caught and shown. The
  handler is \<^verbatim>\<open>except Exception\<close>, so this fails for an exception that is not an instance
  of \<^verbatim>\<open>Exception\<close>: when \<^verbatim>\<open>predict\<close> is interrupted, the exception leaves the script, the
  run ends with it right after the button, and the page shows no error message.
\<close>

theorem interrupt_propagates:
  "button views_edited ''Predict Estimated Revenue'' \<and>
   raised (input_prepared views_edited interrupted_model scenario_features scenario_means)
     = None \<and>
   interrupted_model (input_df (input_prepared views_edited interrupted_model
     scenario_features scenario_means)) = RaisedBase ''KeyboardInterrupt'' \<and>
   ending (run_script (example_files interrupted_model scenario_features scenario_means)
             views_edited) = Some (UncaughtBase ''KeyboardInterrupt'') \<and>
   \<not> list_ex is_error (shown (run_script
         (example_files interrupted_model scenario_features scenario_means) views_edited))"
proof -
  let ?ip = "input_prepared views_edited interrupted_model scenario_features scenario_means"
  have ip: "raised ?ip = None"
    by (rule input_prepared_ok [OF views_edited_scenario])
       (simp add: scenario_features_def scenario_means_def)
  have b: "button views_edited ''Predict Estimated Revenue''"
    by (simp add: views_edited_def)
  have m: "model ?ip = interrupted_model"
    using exec_script_artifacts [of views_edited interrupted_model scenario_features
        scenario_means]
    by (simp add: script_run footer_fields)
  have out: "interrupted_model (input_df ?ip) = RaisedBase ''KeyboardInterrupt''"
    by (simp add: interrupted_model_def)
  have page: "\<not> list_ex is_error (screen ?ip)"
  proof -
    have "screen ?ip = screen (form_rendered views_edited interrupted_model
            scenario_features scenario_means)"
      by (simp add: input_prepared_cases split: sum.splits)
    with form_rendered_no_error [OF views_edited_scenario] show ?thesis
      by simp
  qed
  have run: "run_script (example_files interrupted_model scenario_features scenario_means)
               views_edited = Ran (exec (footer views_edited) ?ip)"
    by (simp add: run_script_loaded example_load script_run)
  have "ending (run_script (example_files interrupted_model scenario_features
          scenario_means) views_edited) = Some (UncaughtBase ''KeyboardInterrupt'')"
    by (simp add: run footer_raised [OF ip] b m out)
  moreover have "\<not> list_ex is_error (shown (run_script
         (example_files interrupted_model scenario_features scenario_means) views_edited))"
    using page by (simp add: run footer_screen [OF ip] b m out)
  ultimately show ?thesis using b ip out by blast
qed

text \<open>
  Claim C5, amended. When the button is pressed and \<^verbatim>\<open>predict\<close> raises an exception that
  is an instance of \<^verbatim>\<open>Exception\<close>, with text \<open>t\<close>, the run still ends normally: the page
  shows the form, the button, an error element with the text \<open>t\<close> after the fixed prefix,
  and the closing notes; nothing propagates, and the artifacts are as loaded, so the next
  interaction runs the script as before. An exception that is not an instance of
  \<^verbatim>\<open>Exception\<close> is not caught: the run ends with it after the button, and the script
  shows nothing more.
\<close>

theorem prediction_error_is_caught:
  assumes "load_artifacts fs = Inr (m, F, M)"
    and "raised (input_prepared st m F M) = None"
    and "button st ''Predict Estimated Revenue''"
  shows "(m (input_df (input_prepared st m F M)) = Raised t \<longrightarrow>
          (\<exists>s. run_script fs st = Ran s \<and> raised s = None \<and>
             screen s = screen (input_prepared st m F M) @
               [Write ''---'', Button ''Predict Estimated Revenue'',
                Error (''An error occurred during prediction: '' @ t),
                Write ''---'', Markdown ''### How to Use This App'',
                Info ''Run Part 1 code, save this code, run streamlit'',
                Markdown ''Developed using Python & Streamlit''] \<and>
             length (number_inputs (screen s)) = 11 \<and>
             model s = m \<and> model_features s = F \<and> feature_means s = M)) \<and>
         (m (input_df (input_prepared st m F M)) = RaisedBase b \<longrightarrow>
          (\<exists>s. run_script fs st = Ran s \<and> raised s = Some (UncaughtBase b) \<and>
             screen s = screen (input_prepared st m F M) @
               [Write ''---'', Button ''Predict Estimated Revenue'']))"
proof -
  let ?ip = "input_prepared st m F M"
  let ?s = "exec (script_body st) (after_load m F M)"
  have run: "run_script fs st = Ran ?s"
    using assms(1) by (rule run_script_loaded)
  have m: "model ?ip = m"
    using exec_script_artifacts [of st m F M] by (simp add: script_run footer_fields)
  have fr: "raised (form_rendered st m F M) = None"
    using assms(2) by (auto simp: input_prepared_cases split: if_splits)
  have inputs: "length (number_inputs (screen ?s)) = 11"
    by (simp add: final_number_inputs [OF fr] form_fields_def)
  show ?thesis
  proof (intro conjI impI)
    assume t: "m (input_df ?ip) = Raised t"
    have "screen ?s = screen ?ip @
               [Write ''---'', Button ''Predict Estimated Revenue'',
                Error (''An error occurred during prediction: '' @ t),
                Write ''---'', Markdown ''### How to Use This App'',
                Info ''Run Part 1 code, save this code, run streamlit'',
                Markdown ''Developed using Python & Streamlit'']"
      using assms(3) t by (simp add: script_run footer_screen [OF assms(2)] m)
    moreover have "raised ?s = None"
      using assms(3) t by (simp add: script_run footer_raised [OF assms(2)] m)
    ultimately show "\<exists>s. run_script fs st = Ran s \<and> raised s = None \<and>
             screen s = screen (input_prepared st m F M) @
               [Write ''---'', Button ''Predict Estimated Revenue'',
                Error (''An error occurred during prediction: '' @ t),
                Write ''---'', Markdown ''### How to Use This App'',
                Info ''Run Part 1 code, save this code, run streamlit'',
                Markdown ''Developed using Python & Streamlit''] \<and>
             length (number_inputs (screen s)) = 11 \<and>
             model s = m \<and> model_features s = F \<and> feature_means s = M"
      using run inputs exec_script_artifacts [of st m F M] by blast
  next
    assume b: "m (input_df ?ip) = RaisedBase b"
    have "screen ?s = screen ?ip @ [Write ''---'', Button ''Predict Estimated Revenue'']"
      using assms(3) b by (simp add: script_run footer_screen [OF assms(2)] m)
    moreover have "raised ?s = Some (UncaughtBase b)"
      using assms(3) b by (simp add: script_run footer_raised [OF assms(2)] m)
    ultimately show "\<exists>s. run_script fs st = Ran s \<and> raised s = Some (UncaughtBase b) \<and>
             screen s = screen (input_prepared st m F M) @
               [Write ''---'', Button ''Predict Estimated Revenue'']"
      using run by blast
  qed
qed

theorem prediction_error_is_caught_witness:
  "load_artifacts (example_files raising_model scenario_features scenario_means)
     = Inr (raising_model, scenario_features, scenario_means) \<and>
   raised (input_prepared views_edited raising_model scenario_features scenario_means) = None \<and>
   button views_edited ''Predict Estimated Revenue'' \<and>
   raising_model (input_df (input_prepared views_edited raising_model scenario_features
                   scenario_means))
     = Raised ''X has 3 features, but the model is expecting 5'' \<and>
   ending (run_script (example_files raising_model scenario_features scenario_means)
             views_edited) = None \<and>
   Error ''An error occurred during prediction: X has 3 features, but the model is expecting 5''
     \<in> set (shown (run_script (example_files raising_model scenario_features scenario_means)
                views_edited)) \<and>
   interrupted_model (input_df (input_prepared views_edited interrupted_model
     scenario_features scenario_means)) = RaisedBase ''KeyboardInterrupt'' \<and>
   ending (run_script (example_files interrupted_model scenario_features scenario_means)
             views_edited) = Some (UncaughtBase ''KeyboardInterrupt'')"
proof -
  have ip': "raised (input_prepared views_edited interrupted_model scenario_features
                   scenario_means) = None"
    by (rule input_prepared_ok [OF views_edited_scenario])
       (simp add: scenario_features_def scenario_means_def)
  have i: "interrupted_model (input_df (input_prepared views_edited interrupted_model
             scenario_features scenario_means)) = RaisedBase ''KeyboardInterrupt''"
    by (simp add: interrupted_model_def)
  have ip: "raised (input_prepared views_edited raising_model scenario_features
                   scenario_means) = None"
    by (rule input_prepared_ok [OF views_edited_scenario])
       (simp add: scenario_features_def scenario_means_def)
  have b: "button views_edited ''Predict Estimated Revenue''"
    by (simp add: views_edited_def)
  have t: "raising_model (input_df (input_prepared views_edited raising_model
             scenario_features scenario_means))
           = Raised ''X has 3 features, but the model is expecting 5''"
    by (simp add: raising_model_def)
  from prediction_error_is_caught [OF example_load ip b, THEN conjunct1, THEN mp, OF t]
  obtain s where "run_script (example_files raising_model scenario_features scenario_means)
                    views_edited = Ran s"
    and "raised s = None"
    and "Error (''An error occurred during prediction: ''
                 @ ''X has 3 features, but the model is expecting 5'') \<in> set (screen s)"
    by auto
  then have "ending (run_script (example_files raising_model scenario_features scenario_means)
             views_edited) = None"
    and "Error ''An error occurred during prediction: X has 3 features, but the model is expecting 5''
     \<in> set (shown (run_script (example_files raising_model scenario_features scenario_means)
                views_edited))"
    by simp_all
  moreover from prediction_error_is_caught [OF example_load ip' b, THEN conjunct2, THEN mp, OF i]
  have "ending (run_script (example_files interrupted_model scenario_features scenario_means)
             views_edited) = Some (UncaughtBase ''KeyboardInterrupt'')"
    by auto
  ultimately show ?thesis using example_load ip b t i by blast
qed

section \<open>The artifacts during a session\<close>

text \<open>
  Claim C10. No statement of the script changes \<open>model_features\<close> or \<open>feature_means\<close>,
  and every run of a session, whatever the widgets hold and however often the button is
  pressed, ends with both as they were loaded.
\<close>

theorem artifacts_never_mutated:
  assumes "load_artifacts fs = Inr (m, F, M)"
  shows "(\<forall>c \<in> set (script_body st). \<forall>s.
            model_features (c s) = model_features s \<and> feature_means (c s) = feature_means s) \<and>
         (\<forall>r \<in> set (session fs sts).
            \<exists>s. r = Ran s \<and> model_features s = F \<and> feature_means s = M)"
proof
  show "\<forall>c \<in> set (script_body st). \<forall>s.
            model_features (c s) = model_features s \<and> feature_means (c s) = feature_means s"
    using script_keeps_artifacts by blast
next
  show "\<forall>r \<in> set (session fs sts).
            \<exists>s. r = Ran s \<and> model_features s = F \<and> feature_means s = M"
  proof
    fix r assume "r \<in> set (session fs sts)"
    then obtain st' where "r = run_script fs st'"
      by (auto simp: session_def)
    then have "r = Ran (exec (script_body st') (after_load m F M))"
      by (simp add: run_script_loaded [OF assms])
    with exec_script_artifacts [of st' m F M]
    show "\<exists>s. r = Ran s \<and> model_features s = F \<and> feature_means s = M"
      by blast
  qed
qed

theorem artifacts_never_mutated_witness:
  "load_artifacts (example_files constant_model scenario_features scenario_means)
     = Inr (constant_model, scenario_features, scenario_means) \<and>
   assign_input_df_dict \<in> set (script_body views_edited) \<and>
   feature_means (assign_input_df_dict (after_load constant_model scenario_features scenario_means))
     = scenario_means \<and>
   run_script (example_files constant_model scenario_features scenario_means) views_edited
     \<in> set (session (example_files constant_model scenario_features scenario_means)
              [untouched_widgets, views_edited, views_edited]) \<and>
   (\<exists>s. run_script (example_files constant_model scenario_features scenario_means) views_edited
          = Ran s \<and>
        model_features s = scenario_features \<and> feature_means s = scenario_means)"
proof -
  let ?fs = "example_files constant_model scenario_features scenario_means"
  have c: "assign_input_df_dict \<in> set (script_body views_edited)"
    by (simp add: script_body_def prepare_input_def)
  have r: "run_script ?fs views_edited
             \<in> set (session ?fs [untouched_widgets, views_edited, views_edited])"
    by (simp add: session_def)
  note inst = artifacts_never_mutated [OF example_load,
      where st = views_edited and sts = "[untouched_widgets, views_edited, views_edited]"]
  from inst c have "feature_means (assign_input_df_dict
      (after_load constant_model scenario_features scenario_means))
        = feature_means (after_load constant_model scenario_features scenario_means)"
    by blast
  then have "feature_means (assign_input_df_dict
      (after_load constant_model scenario_features scenario_means)) = scenario_means"
    by (simp add: after_load_def)
  moreover from inst r have "\<exists>s. run_script ?fs views_edited = Ran s \<and>
        model_features s = scenario_features \<and> feature_means s = scenario_means"
    by blast
  ultimately show ?thesis using example_load c r by blast
qed

end
